theory Spec2Isabelle
  imports Complex_Main
begin

section \<open>Numbers and geometry\<close>

text \<open>
  The canvas code computes on JavaScript numbers. They are embedded as HOL reals: the
  properties below rest on comparisons, on clamping and on the sign of a product, none
  of which depends on how a double rounds. NaN and the infinities have no counterpart;
  the DOM delivers finite wheel deltas and pointer coordinates.

  \<^verbatim>\<open>Math.round(v)\<close> is \<open>\<lfloor>v + 1/2\<rfloor>\<close>, which is HOL's \<^const>\<open>round\<close>.
\<close>

record Coordinate =
  cx :: real
  cy :: real

record Rect =
  rectX :: real
  rectY :: real
  rectWidth :: real
  rectHeight :: real

record RgbaColor =
  colR :: nat
  colG :: nat
  colB :: nat
  colA :: nat

text \<open>\<^verbatim>\<open>Math.hypot(a, b)\<close>.\<close>

definition hypot :: "real \<Rightarrow> real \<Rightarrow> real" where
  "hypot a b = sqrt (a * a + b * b)"

text \<open>
  lodash \<^verbatim>\<open>clamp(number, lower, upper)\<close>: first capped from above, then from below
  (\<^verbatim>\<open>number <= upper ? number : upper\<close>, then \<^verbatim>\<open>number >= lower ? number : lower\<close>).
\<close>

definition clamp :: "real \<Rightarrow> real \<Rightarrow> real \<Rightarrow> real" where
  "clamp number lower upper =
     (let n = (if number \<le> upper then number else upper)
      in if n \<ge> lower then n else lower)"

subsection \<open>Brush size easing (events.ts, calculateNewBrushSize)\<close>

text \<open>
  \<^verbatim>\<open>targetDelta = Math.sign(delta) * 0.7363 * Math.pow(1.0394, brushSize)\<close>,
  \<^verbatim>\<open>finalDelta = clamp(targetDelta, -20, 20)\<close>,
  \<^verbatim>\<open>newBrushSize = clamp(brushSize + finalDelta, 1, 500)\<close>.
  The two local constants are definitions of their own so that the applied change can be
  named in a statement.
\<close>

definition targetDelta :: "real \<Rightarrow> real \<Rightarrow> real" where
  "targetDelta brushSize delta = sgn delta * (7363 / 10000) * ((10394 / 10000) powr brushSize)"

definition finalDelta :: "real \<Rightarrow> real \<Rightarrow> real" where
  "finalDelta brushSize delta = clamp (targetDelta brushSize delta) (- 20) 20"

definition calculateNewBrushSize :: "real \<Rightarrow> real \<Rightarrow> real" where
  "calculateNewBrushSize brushSize delta = clamp (brushSize + finalDelta brushSize delta) 1 500"

section \<open>Tool state and drawable objects\<close>

text \<open>
  The tool enumeration (\<^verbatim>\<open>'move'\<close>, \<^verbatim>\<open>'view'\<close>, \<^verbatim>\<open>'brush'\<close>, \<^verbatim>\<open>'eraser'\<close>, \<^verbatim>\<open>'rect'\<close>,
  \<^verbatim>\<open>'bbox'\<close>, \<^verbatim>\<open>'eyeDropper'\<close>) and the \<^verbatim>\<open>tool\<close> slice of the canvas state with the
  reducers that write it (canvasV2Slice: \<^verbatim>\<open>toolChanged\<close>, \<^verbatim>\<open>toolBufferChanged\<close>,
  \<^verbatim>\<open>fillChanged\<close>, \<^verbatim>\<open>brushWidthChanged\<close>, \<^verbatim>\<open>eraserWidthChanged\<close>).
\<close>

datatype Tool = ToolMove | ToolView | ToolBrush | ToolEraser | ToolRect | ToolBbox | ToolEyeDropper

record ToolState =
  selected :: Tool
  selectedBuffer :: "Tool option"
  invertScroll :: bool
  fill :: RgbaColor
  brushWidth :: real
  eraserWidth :: real

definition toolChanged :: "Tool \<Rightarrow> ToolState \<Rightarrow> ToolState" where
  "toolChanged t ts = ts\<lparr>selected := t\<rparr>"

definition toolBufferChanged :: "Tool option \<Rightarrow> ToolState \<Rightarrow> ToolState" where
  "toolBufferChanged t ts = ts\<lparr>selectedBuffer := t\<rparr>"

definition fillChanged :: "RgbaColor \<Rightarrow> ToolState \<Rightarrow> ToolState" where
  "fillChanged c ts = ts\<lparr>fill := c\<rparr>"

definition brushWidthChanged :: "real \<Rightarrow> ToolState \<Rightarrow> ToolState" where
  "brushWidthChanged w ts = ts\<lparr>brushWidth := of_int (round w)\<rparr>"

definition eraserWidthChanged :: "real \<Rightarrow> ToolState \<Rightarrow> ToolState" where
  "eraserWidthChanged w ts = ts\<lparr>eraserWidth := of_int (round w)\<rparr>"

text \<open>
  Identifiers. Modelled from the spec: \<^verbatim>\<open>getPrefixedId\<close> and \<^verbatim>\<open>getObjectId\<close> live in
  konva/util, which is not among the sources; the spec calls them identifier generation and
  the identifier given at commit time fresh. An identifier is a prefix and a serial number
  drawn from a supply that never issues a number twice; the supply is threaded through the
  state. \<^verbatim>\<open>getObjectId(type, true)\<close> names a new buffer object.
\<close>

type_synonym ObjectId = "string \<times> nat"

definition getPrefixedId :: "string \<Rightarrow> nat \<Rightarrow> ObjectId \<times> nat" where
  "getPrefixedId prefix n = ((prefix, n), Suc n)"

definition getObjectId :: "string \<Rightarrow> bool \<Rightarrow> nat \<Rightarrow> ObjectId \<times> nat" where
  "getObjectId type isBuffer n = ((type, n), Suc n)"

text \<open>
  The drawable objects are a union discriminated by the \<^verbatim>\<open>type\<close> tag. CanvasLayer
  matches the tags \<^verbatim>\<open>'brush_line'\<close> (id, flat list of x/y coordinates, stroke width, color,
  clip), \<^verbatim>\<open>'eraser_line'\<close> (id, points, stroke width, clip), \<^verbatim>\<open>'rect_shape'\<close> (id, rect,
  color) and \<^verbatim>\<open>'image'\<close> (id, image name, width, height). The handlers of events.ts build
  their rectangle buffer with the tag \<^verbatim>\<open>'rect'\<close> and test buffers for that tag; an object so
  tagged is the member \<open>RectObj\<close> (id, rect, color). It is another tag than
  \<^verbatim>\<open>'rect_shape'\<close>: no test of CanvasLayer matches it.
\<close>

datatype CanvasObject =
    BrushLine ObjectId "real list" real RgbaColor "Rect option"
  | EraserLine ObjectId "real list" real "Rect option"
  | RectShape ObjectId Rect RgbaColor
  | ImageObject ObjectId string real real
  | RectObj ObjectId Rect RgbaColor

fun objId :: "CanvasObject \<Rightarrow> ObjectId" where
  "objId (BrushLine i ps w c cl) = i"
| "objId (EraserLine i ps w cl) = i"
| "objId (RectShape i r c) = i"
| "objId (ImageObject i nm w h) = i"
| "objId (RectObj i r c) = i"

fun setObjId :: "ObjectId \<Rightarrow> CanvasObject \<Rightarrow> CanvasObject" where
  "setObjId j (BrushLine i ps w c cl) = BrushLine j ps w c cl"
| "setObjId j (EraserLine i ps w cl) = EraserLine j ps w cl"
| "setObjId j (RectShape i r c) = RectShape j r c"
| "setObjId j (ImageObject i nm w h) = ImageObject j nm w h"
| "setObjId j (RectObj i r c) = RectObj j r c"

text \<open>The commands the canvas code sends to the state API.\<close>

datatype Command =
    BrushLineAdded string CanvasObject
  | EraserLineAdded string CanvasObject
  | RectShapeAdded string CanvasObject
  | EntityReset string

subsection \<open>Committing the drawing buffer (CanvasLayer.finalizeDrawingBuffer)\<close>

text \<open>
  The method reads and clears \<^verbatim>\<open>this._drawingBuffer\<close>, reads \<^verbatim>\<open>this.id\<close> and calls the state
  API; the embedding takes the layer id, the buffer and the identifier supply and returns
  the new buffer, the commands sent and the supply. With no buffer it returns at once.
  Every one of the three branches asks \<^verbatim>\<open>getPrefixedId('brush_line')\<close> for the new
  identifier. A buffer tagged \<^verbatim>\<open>'image'\<close> or \<^verbatim>\<open>'rect'\<close> matches no branch: the buffer has
  been cleared by then, no identifier is drawn and nothing is sent.
\<close>

definition finalizeDrawingBuffer ::
  "string \<Rightarrow> CanvasObject option \<Rightarrow> nat \<Rightarrow> CanvasObject option \<times> Command list \<times> nat" where
  "finalizeDrawingBuffer layerId drawingBuffer n =
     (case drawingBuffer of
        None \<Rightarrow> (None, [], n)
      | Some (BrushLine i ps w c cl) \<Rightarrow>
          (let (j, n') = getPrefixedId ''brush_line'' n
           in (None, [BrushLineAdded layerId (BrushLine j ps w c cl)], n'))
      | Some (EraserLine i ps w cl) \<Rightarrow>
          (let (j, n') = getPrefixedId ''brush_line'' n
           in (None, [EraserLineAdded layerId (EraserLine j ps w cl)], n'))
      | Some (RectShape i r c) \<Rightarrow>
          (let (j, n') = getPrefixedId ''brush_line'' n
           in (None, [RectShapeAdded layerId (RectShape j r c)], n'))
      | Some (ImageObject i nm w h) \<Rightarrow> (None, [], n)
      | Some (RectObj i r c) \<Rightarrow> (None, [], n))"

section \<open>The stage event handlers (events.ts)\<close>

subsection \<open>State\<close>

text \<open>
  The entity state the handlers read: identity, kind, position and the persisted object
  list. Modelled from the spec: \<^verbatim>\<open>isDrawableEntity\<close> is declared in store/types, which is
  not among the sources; the drawable kinds are the four entity states the handlers'
  signatures name (raster layer, control layer, regional guidance, inpaint mask).
\<close>

datatype EntityType = RasterLayer | ControlLayer | RegionalGuidance | InpaintMask | IPAdapter

record EntityState =
  entId :: string
  entType :: EntityType
  entPosition :: Coordinate
  entObjects :: "CanvasObject list"

definition isDrawableEntity :: "EntityState \<Rightarrow> bool" where
  "isDrawableEntity e = (entType e \<noteq> IPAdapter)"

text \<open>
  The handlers reach the adapter of the selected entity through
  \<^verbatim>\<open>adapter.renderer.buffer\<close>, \<^verbatim>\<open>setBuffer\<close>, \<^verbatim>\<open>clearBuffer\<close> and \<^verbatim>\<open>commitBuffer\<close>. The
  renderer's class is not among the sources; the adapter that is, CanvasLayer, has the same
  four members as \<^verbatim>\<open>_drawingBuffer\<close>, \<^verbatim>\<open>setDrawingBuffer(obj)\<close>, \<^verbatim>\<open>setDrawingBuffer(null)\<close>
  and \<^verbatim>\<open>finalizeDrawingBuffer\<close>, and these are what the handlers are given here. Of the
  adapter the handlers see the id and the buffer slot; drawing the buffer on the scene
  (\<^verbatim>\<open>_renderObject\<close>) is part of the layer model further down.
\<close>

record Renderer =
  adapterId :: string
  buffer :: "CanvasObject option"

record SelectedEntity =
  entState :: EntityState
  adapter :: Renderer

text \<open>
  The state the handlers share: the tool state, the ephemeral cells
  (\<^verbatim>\<open>$isMouseDown\<close>, \<^verbatim>\<open>$lastMouseDownPos\<close>, \<^verbatim>\<open>$lastCursorPos\<close>, \<^verbatim>\<open>$lastAddedPoint\<close>,
  \<^verbatim>\<open>$spaceKey\<close>, \<^verbatim>\<open>$colorUnderCursor\<close>), the selected entity, what \<^verbatim>\<open>getClip\<close> reads
  (settings, bbox, stage attributes), the identifier supply and the log of commands sent.
\<close>

record CanvasState =
  toolState :: ToolState
  isMouseDown :: bool
  lastMouseDownPos :: "Coordinate option"
  lastCursorPos :: "Coordinate option"
  lastAddedPoint :: "Coordinate option"
  spaceKey :: bool
  colorUnderCursor :: "RgbaColor option"
  selectedEntity :: "SelectedEntity option"
  clipToBbox :: bool
  bboxRect :: Rect
  stageX :: real
  stageY :: real
  stageWidth :: real
  stageHeight :: real
  stageScaleX :: real
  stageScaleY :: real
  nextId :: nat
  dispatched :: "Command list"

text \<open>
  What a mouse event brings: the result of \<^verbatim>\<open>getScaledCursorPosition(stage)\<close> (konva/util,
  not among the sources; absent when the cursor is not over the stage),
  \<^verbatim>\<open>e.evt.buttons\<close>, \<^verbatim>\<open>e.evt.shiftKey\<close>, \<^verbatim>\<open>stage.getPointerPosition()\<close>, and the pixel read
  at a position: \<^verbatim>\<open>None\<close> when the 1x1 canvas gives no 2d context, else the \<^verbatim>\<open>data\<close> array
  of \<^verbatim>\<open>getImageData(0, 0, 1, 1)\<close>.
\<close>

record MouseEvent =
  scaledCursor :: "Coordinate option"
  buttons :: nat
  shiftKey :: bool
  pointerPosition :: "Coordinate option"
  pixelAt :: "Coordinate \<Rightarrow> nat list option"

record KeyboardEvent =
  key :: string
  repeat :: bool
  targetIsTextInput :: bool

text \<open>
  The helpers of konva/util and konva/constants that the handlers call and the sources do
  not hold are parameters of the handlers: \<^verbatim>\<open>alignCoordForTool(coord, toolWidth)\<close>,
  \<^verbatim>\<open>offsetCoord(coord, offset)\<close> and the constant \<^verbatim>\<open>BRUSH_SPACING_TARGET_SCALE\<close>. Every
  general statement below holds for all of them.
\<close>

record Util =
  alignCoordForTool :: "Coordinate \<Rightarrow> real \<Rightarrow> Coordinate"
  offsetCoord :: "Coordinate \<Rightarrow> Coordinate \<Rightarrow> Coordinate"
  BRUSH_SPACING_TARGET_SCALE :: real

text \<open>
  Modelled from the spec: one instance of the absent helpers, used where a statement needs
  concrete values. The spec has the pointer position normalized into the entity's local
  coordinate space (the entity's position is subtracted) and snapped for the tool (here: to
  whole pixels), and a minimum spacing proportional to the stroke width (here: a tenth).
\<close>

definition specUtil :: Util where
  "specUtil = \<lparr>alignCoordForTool = (\<lambda>c w. \<lparr>cx = of_int (round (cx c)), cy = of_int (round (cy c))\<rparr>),
               offsetCoord = (\<lambda>c off. \<lparr>cx = cx c - cx off, cy = cy c - cy off\<rparr>),
               BRUSH_SPACING_TARGET_SCALE = 1 / 10\<rparr>"

subsection \<open>State API\<close>

text \<open>
  \<^verbatim>\<open>setTool\<close>, \<^verbatim>\<open>setToolBuffer\<close>, \<^verbatim>\<open>setFill\<close> dispatch the reducers above.
  Modelled from the spec: the state API facade and the layer reducers behind
  \<^verbatim>\<open>onBrushLineAdded\<close>, \<^verbatim>\<open>onEraserLineAdded\<close>, \<^verbatim>\<open>onRectShapeAdded\<close> are not among the
  sources. By the spec each write accessor maps to one command dispatched against the
  snapshot, an added object is folded into the entity's persisted object list, re-querying
  right after shows it, and a command addressed to an entity that is not there is a no-op.
  \<^verbatim>\<open>getCurrentFill\<close> is the tool state's fill color.
\<close>

definition setTool :: "Tool \<Rightarrow> CanvasState \<Rightarrow> CanvasState" where
  "setTool t s = s\<lparr>toolState := toolChanged t (toolState s)\<rparr>"

definition setToolBuffer :: "Tool option \<Rightarrow> CanvasState \<Rightarrow> CanvasState" where
  "setToolBuffer t s = s\<lparr>toolState := toolBufferChanged t (toolState s)\<rparr>"

definition setFill :: "RgbaColor \<Rightarrow> CanvasState \<Rightarrow> CanvasState" where
  "setFill c s = s\<lparr>toolState := fillChanged c (toolState s)\<rparr>"

definition getCurrentFill :: "CanvasState \<Rightarrow> RgbaColor" where
  "getCurrentFill s = fill (toolState s)"

fun reduceEntity :: "Command \<Rightarrow> EntityState \<Rightarrow> EntityState" where
  "reduceEntity (BrushLineAdded i obj) e = (if entId e = i then e\<lparr>entObjects := entObjects e @ [obj]\<rparr> else e)"
| "reduceEntity (EraserLineAdded i obj) e = (if entId e = i then e\<lparr>entObjects := entObjects e @ [obj]\<rparr> else e)"
| "reduceEntity (RectShapeAdded i obj) e = (if entId e = i then e\<lparr>entObjects := entObjects e @ [obj]\<rparr> else e)"
| "reduceEntity (EntityReset i) e = (if entId e = i then e\<lparr>entObjects := []\<rparr> else e)"

definition dispatch :: "Command \<Rightarrow> CanvasState \<Rightarrow> CanvasState" where
  "dispatch c s =
     s\<lparr>dispatched := dispatched s @ [c],
       selectedEntity := map_option (\<lambda>ent. ent\<lparr>entState := reduceEntity c (entState ent)\<rparr>) (selectedEntity s)\<rparr>"

subsection \<open>The buffer of the selected entity's adapter\<close>

definition getBuffer :: "CanvasState \<Rightarrow> CanvasObject option" where
  "getBuffer s = (case selectedEntity s of None \<Rightarrow> None | Some ent \<Rightarrow> buffer (adapter ent))"

definition setBuffer :: "CanvasObject \<Rightarrow> CanvasState \<Rightarrow> CanvasState" where
  "setBuffer obj s =
     s\<lparr>selectedEntity := map_option (\<lambda>ent. ent\<lparr>adapter := (adapter ent)\<lparr>buffer := Some obj\<rparr>\<rparr>) (selectedEntity s)\<rparr>"

definition clearBuffer :: "CanvasState \<Rightarrow> CanvasState" where
  "clearBuffer s =
     s\<lparr>selectedEntity := map_option (\<lambda>ent. ent\<lparr>adapter := (adapter ent)\<lparr>buffer := None\<rparr>\<rparr>) (selectedEntity s)\<rparr>"

definition commitBuffer :: "CanvasState \<Rightarrow> CanvasState" where
  "commitBuffer s =
     (case selectedEntity s of
        None \<Rightarrow> s
      | Some ent \<Rightarrow>
          (let (b, cmds, n) = finalizeDrawingBuffer (adapterId (adapter ent)) (buffer (adapter ent)) (nextId s);
               s1 = s\<lparr>selectedEntity := Some (ent\<lparr>adapter := (adapter ent)\<lparr>buffer := b\<rparr>\<rparr>), nextId := n\<rparr>
           in fold dispatch cmds s1))"


subsection \<open>Helpers of events.ts\<close>

text \<open>
  \<^verbatim>\<open>updateLastCursorPos\<close>: stores the scaled cursor position when there is one and returns it.
\<close>

definition updateLastCursorPos :: "MouseEvent \<Rightarrow> CanvasState \<Rightarrow> Coordinate option \<times> CanvasState" where
  "updateLastCursorPos e s =
     (case scaledCursor e of
        None \<Rightarrow> (None, s)
      | Some pos \<Rightarrow> (Some pos, s\<lparr>lastCursorPos := Some pos\<rparr>))"

text \<open>
  \<^verbatim>\<open>getNextPoint\<close>: the candidate is dropped when a last point is known and the candidate is
  closer to it than the minimum spacing; else it is returned as it is.
\<close>

definition getNextPoint :: "Util \<Rightarrow> Coordinate \<Rightarrow> ToolState \<Rightarrow> Coordinate option \<Rightarrow> Coordinate option" where
  "getNextPoint u currentPos ts lastPt =
     (let minSpacingPx =
            (if selected ts = ToolBrush
             then brushWidth ts * BRUSH_SPACING_TARGET_SCALE u
             else eraserWidth ts * BRUSH_SPACING_TARGET_SCALE u)
      in case lastPt of
           Some lp \<Rightarrow>
             if hypot (cx lp - cx currentPos) (cy lp - cy currentPos) < minSpacingPx
             then None else Some currentPos
         | None \<Rightarrow> Some currentPos)"

text \<open>\<^verbatim>\<open>getLastPointOfLine\<close>: the last two numbers of the flat list, when it has two.\<close>

definition getLastPointOfLine :: "real list \<Rightarrow> Coordinate option" where
  "getLastPointOfLine points =
     (if length points < 2 then None
      else Some \<lparr>cx = points ! (length points - 2), cy = points ! (length points - 1)\<rparr>)"

text \<open>
  \<^verbatim>\<open>getLastPointOfLastLineOfEntity\<close>: the end of the entity's last object when that is a line
  of the kind the tool draws.
\<close>

definition getLastPointOfLastLineOfEntity :: "EntityState \<Rightarrow> Tool \<Rightarrow> Coordinate option" where
  "getLastPointOfLastLineOfEntity entity tool =
     (if entObjects entity = [] then None
      else (case last (entObjects entity) of
              BrushLine i ps w c cl \<Rightarrow> if tool = ToolBrush then getLastPointOfLine ps else None
            | EraserLine i ps w cl \<Rightarrow> if tool = ToolEraser then getLastPointOfLine ps else None
            | _ \<Rightarrow> None))"

text \<open>
  \<^verbatim>\<open>getColorUnderCursor\<close>: absent without a pointer position, without a 2d context, or when
  the pixel read has fewer than four components.
\<close>

definition getColorUnderCursor :: "MouseEvent \<Rightarrow> RgbaColor option" where
  "getColorUnderCursor e =
     (case pointerPosition e of
        None \<Rightarrow> None
      | Some pos \<Rightarrow>
          (case pixelAt e pos of
             None \<Rightarrow> None
           | Some d \<Rightarrow>
               (case d of
                  r # g # b # a # rest \<Rightarrow> Some \<lparr>colR = r, colG = g, colB = b, colA = a\<rparr>
                | _ \<Rightarrow> None)))"

definition getIsPrimaryMouseDown :: "MouseEvent \<Rightarrow> bool" where
  "getIsPrimaryMouseDown e = (buttons e = 1)"

text \<open>
  \<^verbatim>\<open>getClip\<close>. The division is the reals'; a stage scale of zero, where JavaScript gives an
  infinity, does not occur on a stage that shows anything.
\<close>

definition getClip :: "CanvasState \<Rightarrow> EntityState \<Rightarrow> Rect" where
  "getClip s entity =
     (if clipToBbox s
      then \<lparr>rectX = rectX (bboxRect s) - cx (entPosition entity),
            rectY = rectY (bboxRect s) - cy (entPosition entity),
            rectWidth = rectWidth (bboxRect s),
            rectHeight = rectHeight (bboxRect s)\<rparr>
      else \<lparr>rectX = - stageX s / stageScaleX s - cx (entPosition entity),
            rectY = - stageY s / stageScaleY s - cy (entPosition entity),
            rectWidth = stageWidth s / stageScaleX s,
            rectHeight = stageHeight s / stageScaleY s\<rparr>)"

subsection \<open>mousedown\<close>

text \<open>
  Each handler is embedded as one atomic step: the \<^verbatim>\<open>await\<close>s on \<^verbatim>\<open>setBuffer\<close> are not
  points at which another handler is interleaved. The handler reads the tool state and the
  selected entity once, at its start; \<open>ts\<close> and \<open>ent\<close> below are those snapshots, while the
  adapter's buffer is read from the current state, as the code reads it from the adapter
  object.
\<close>

definition mousedownBrush :: "Util \<Rightarrow> MouseEvent \<Rightarrow> ToolState \<Rightarrow> SelectedEntity \<Rightarrow> Coordinate \<Rightarrow> CanvasState \<Rightarrow> CanvasState" where
  "mousedownBrush u e ts ent normalizedPoint s =
     (let lastLinePoint = getLastPointOfLastLineOfEntity (entState ent) (selected ts);
          alignedPoint = alignCoordForTool u normalizedPoint (brushWidth ts);
          s1 = (if getBuffer s \<noteq> None then commitBuffer s else s);
          (i, n) = getObjectId ''brush_line'' True (nextId s1);
          points = (case lastLinePoint of
                      Some lp \<Rightarrow> if shiftKey e
                                 then [cx lp, cy lp, cx alignedPoint, cy alignedPoint]
                                 else [cx alignedPoint, cy alignedPoint]
                    | None \<Rightarrow> [cx alignedPoint, cy alignedPoint]);
          s2 = setBuffer (BrushLine i points (brushWidth ts) (getCurrentFill s1)
                           (Some (getClip s1 (entState ent)))) (s1\<lparr>nextId := n\<rparr>)
      in s2\<lparr>lastAddedPoint := Some alignedPoint\<rparr>)"

definition mousedownEraser :: "Util \<Rightarrow> MouseEvent \<Rightarrow> ToolState \<Rightarrow> SelectedEntity \<Rightarrow> Coordinate \<Rightarrow> CanvasState \<Rightarrow> CanvasState" where
  "mousedownEraser u e ts ent normalizedPoint s =
     (let lastLinePoint = getLastPointOfLastLineOfEntity (entState ent) (selected ts);
          alignedPoint = alignCoordForTool u normalizedPoint (eraserWidth ts);
          s1 = (if getBuffer s \<noteq> None then commitBuffer s else s);
          (i, n) = getObjectId ''eraser_line'' True (nextId s1);
          points = (case lastLinePoint of
                      Some lp \<Rightarrow> if shiftKey e
                                 then [cx lp, cy lp, cx alignedPoint, cy alignedPoint]
                                 else [cx alignedPoint, cy alignedPoint]
                    | None \<Rightarrow> [cx alignedPoint, cy alignedPoint]);
          s2 = setBuffer (EraserLine i points (eraserWidth ts)
                           (Some (getClip s1 (entState ent)))) (s1\<lparr>nextId := n\<rparr>)
      in s2\<lparr>lastAddedPoint := Some alignedPoint\<rparr>)"

definition mousedownRect :: "Coordinate \<Rightarrow> CanvasState \<Rightarrow> CanvasState" where
  "mousedownRect normalizedPoint s =
     (let s1 = (if getBuffer s \<noteq> None then commitBuffer s else s);
          (i, n) = getObjectId ''rect'' True (nextId s1)
      in setBuffer (RectObj i \<lparr>rectX = of_int (round (cx normalizedPoint)),
                                rectY = of_int (round (cy normalizedPoint)),
                                rectWidth = 0, rectHeight = 0\<rparr> (getCurrentFill s1))
           (s1\<lparr>nextId := n\<rparr>))"

definition mousedown :: "Util \<Rightarrow> MouseEvent \<Rightarrow> CanvasState \<Rightarrow> CanvasState" where
  "mousedown u e s =
     (let s1 = s\<lparr>isMouseDown := True\<rparr>;
          ts = toolState s1;
          (pos, s2) = updateLastCursorPos e s1;
          sel = selectedEntity s2;
          s3 = (if selected ts = ToolEyeDropper
                then (let color = getColorUnderCursor e;
                          s' = s2\<lparr>colorUnderCursor := color\<rparr>
                      in case color of Some c \<Rightarrow> setFill c s' | None \<Rightarrow> s')
                else s2)
      in case pos of
           None \<Rightarrow> s3
         | Some p \<Rightarrow>
             (case sel of
                None \<Rightarrow> s3
              | Some ent \<Rightarrow>
                  if isDrawableEntity (entState ent) \<and> \<not> spaceKey s3 \<and> getIsPrimaryMouseDown e
                  then (let s4 = s3\<lparr>lastMouseDownPos := Some p\<rparr>;
                            normalizedPoint = offsetCoord u p (entPosition (entState ent));
                            s5 = (if selected ts = ToolBrush
                                  then mousedownBrush u e ts ent normalizedPoint s4 else s4);
                            s6 = (if selected ts = ToolEraser
                                  then mousedownEraser u e ts ent normalizedPoint s5 else s5)
                        in if selected ts = ToolRect then mousedownRect normalizedPoint s6 else s6)
                  else s3))"

subsection \<open>mouseup\<close>

text \<open>
  For the selected tool the handler compares the buffer's tag with the tool's
  (\<^verbatim>\<open>'brush_line'\<close>, \<^verbatim>\<open>'eraser_line'\<close>, \<^verbatim>\<open>'rect'\<close>) and calls \<^verbatim>\<open>commitBuffer\<close> when they
  agree, \<^verbatim>\<open>clearBuffer\<close> otherwise. The rectangle tool's test is for the tag \<^verbatim>\<open>'rect'\<close> that
  \<^verbatim>\<open>mousedown\<close> gave the buffer, so a buffer tagged \<^verbatim>\<open>'rect_shape'\<close> is cleared there.
\<close>

definition mouseupBrush :: "CanvasState \<Rightarrow> CanvasState" where
  "mouseupBrush s =
     (case getBuffer s of
        Some (BrushLine i ps w c cl) \<Rightarrow> commitBuffer s
      | _ \<Rightarrow> clearBuffer s)"

definition mouseupEraser :: "CanvasState \<Rightarrow> CanvasState" where
  "mouseupEraser s =
     (case getBuffer s of
        Some (EraserLine i ps w cl) \<Rightarrow> commitBuffer s
      | _ \<Rightarrow> clearBuffer s)"

definition mouseupRect :: "CanvasState \<Rightarrow> CanvasState" where
  "mouseupRect s =
     (case getBuffer s of
        Some (RectObj i r c) \<Rightarrow> commitBuffer s
      | _ \<Rightarrow> clearBuffer s)"

definition mouseup :: "CanvasState \<Rightarrow> CanvasState" where
  "mouseup s =
     (let s1 = s\<lparr>isMouseDown := False\<rparr>
      in case lastCursorPos s1 of
           None \<Rightarrow> s1
         | Some pos \<Rightarrow>
             (case selectedEntity s1 of
                None \<Rightarrow> s1
              | Some ent \<Rightarrow>
                  if isDrawableEntity (entState ent) \<and> \<not> spaceKey s1
                  then (let ts = toolState s1;
                            s2 = (if selected ts = ToolBrush then mouseupBrush s1 else s1);
                            s3 = (if selected ts = ToolEraser then mouseupEraser s2 else s2);
                            s4 = (if selected ts = ToolRect then mouseupRect s3 else s3)
                        in s4\<lparr>lastMouseDownPos := None\<rparr>)
                  else s1))"


subsection \<open>mousemove\<close>

text \<open>
  With a line buffer of the tool's kind the handler takes the buffer's last point, passes
  the cursor position and that point through \<^verbatim>\<open>getNextPoint\<close>, then offsets and aligns the
  result and pushes it unless it equals the last point. Note the order: the spacing test
  sees the cursor position as it came, the buffer receives the offset and aligned point.
  A buffer of another kind is cleared; without a buffer a new one-point line is opened.
  \<^verbatim>\<open>isDrawableEntityAdapter\<close> (store/types, not among the sources) holds of the adapter of
  a drawable entity.
\<close>

definition mousemoveBrush :: "Util \<Rightarrow> Coordinate \<Rightarrow> ToolState \<Rightarrow> SelectedEntity \<Rightarrow> CanvasState \<Rightarrow> CanvasState" where
  "mousemoveBrush u pos ts ent s =
     (case getBuffer s of
        Some drawingBuffer \<Rightarrow>
          (case drawingBuffer of
             BrushLine i ps w c cl \<Rightarrow>
               (let lastPoint = getLastPointOfLine ps;
                    nextPoint = getNextPoint u pos ts lastPoint
                in case lastPoint of
                     None \<Rightarrow> s
                   | Some lp \<Rightarrow>
                       (case nextPoint of
                          None \<Rightarrow> s
                        | Some np \<Rightarrow>
                            (let normalizedPoint = offsetCoord u np (entPosition (entState ent));
                                 alignedPoint = alignCoordForTool u normalizedPoint (brushWidth ts)
                             in if cx lp \<noteq> cx alignedPoint \<or> cy lp \<noteq> cy alignedPoint
                                then (setBuffer (BrushLine i (ps @ [cx alignedPoint, cy alignedPoint]) w c cl) s)
                                       \<lparr>lastAddedPoint := Some alignedPoint\<rparr>
                                else s)))
           | _ \<Rightarrow> clearBuffer s)
      | None \<Rightarrow>
          (let s1 = (if getBuffer s \<noteq> None then commitBuffer s else s);
               normalizedPoint = offsetCoord u pos (entPosition (entState ent));
               alignedPoint = alignCoordForTool u normalizedPoint (brushWidth ts);
               (i, n) = getObjectId ''brush_line'' True (nextId s1);
               s2 = setBuffer (BrushLine i [cx alignedPoint, cy alignedPoint] (brushWidth ts)
                                (getCurrentFill s1) (Some (getClip s1 (entState ent))))
                      (s1\<lparr>nextId := n\<rparr>)
           in s2\<lparr>lastAddedPoint := Some alignedPoint\<rparr>))"

definition mousemoveEraser :: "Util \<Rightarrow> Coordinate \<Rightarrow> ToolState \<Rightarrow> SelectedEntity \<Rightarrow> CanvasState \<Rightarrow> CanvasState" where
  "mousemoveEraser u pos ts ent s =
     (case getBuffer s of
        Some drawingBuffer \<Rightarrow>
          (case drawingBuffer of
             EraserLine i ps w cl \<Rightarrow>
               (let lastPoint = getLastPointOfLine ps;
                    nextPoint = getNextPoint u pos ts lastPoint
                in case lastPoint of
                     None \<Rightarrow> s
                   | Some lp \<Rightarrow>
                       (case nextPoint of
                          None \<Rightarrow> s
                        | Some np \<Rightarrow>
                            (let normalizedPoint = offsetCoord u np (entPosition (entState ent));
                                 alignedPoint = alignCoordForTool u normalizedPoint (eraserWidth ts)
                             in if cx lp \<noteq> cx alignedPoint \<or> cy lp \<noteq> cy alignedPoint
                                then (setBuffer (EraserLine i (ps @ [cx alignedPoint, cy alignedPoint]) w cl) s)
                                       \<lparr>lastAddedPoint := Some alignedPoint\<rparr>
                                else s)))
           | _ \<Rightarrow> clearBuffer s)
      | None \<Rightarrow>
          (let s1 = (if getBuffer s \<noteq> None then commitBuffer s else s);
               normalizedPoint = offsetCoord u pos (entPosition (entState ent));
               alignedPoint = alignCoordForTool u normalizedPoint (eraserWidth ts);
               (i, n) = getObjectId ''eraser_line'' True (nextId s1);
               s2 = setBuffer (EraserLine i [cx alignedPoint, cy alignedPoint] (eraserWidth ts)
                                (Some (getClip s1 (entState ent))))
                      (s1\<lparr>nextId := n\<rparr>)
           in s2\<lparr>lastAddedPoint := Some alignedPoint\<rparr>))"

definition mousemoveRect :: "Util \<Rightarrow> Coordinate \<Rightarrow> SelectedEntity \<Rightarrow> CanvasState \<Rightarrow> CanvasState" where
  "mousemoveRect u pos ent s =
     (case getBuffer s of
        Some drawingBuffer \<Rightarrow>
          (case drawingBuffer of
             RectObj i r c \<Rightarrow>
               (let normalizedPoint = offsetCoord u pos (entPosition (entState ent))
                in setBuffer (RectObj i (r\<lparr>rectWidth := of_int (round (cx normalizedPoint - rectX r)),
                                           rectHeight := of_int (round (cy normalizedPoint - rectY r))\<rparr>) c) s)
           | _ \<Rightarrow> clearBuffer s)
      | None \<Rightarrow> s)"

definition mousemove :: "Util \<Rightarrow> MouseEvent \<Rightarrow> CanvasState \<Rightarrow> CanvasState" where
  "mousemove u e s =
     (let ts = toolState s;
          (pos, s1) = updateLastCursorPos e s;
          sel = selectedEntity s1;
          s2 = (if selected ts = ToolEyeDropper
                then s1\<lparr>colorUnderCursor := getColorUnderCursor e\<rparr> else s1)
      in case pos of
           None \<Rightarrow> s2
         | Some p \<Rightarrow>
             (case sel of
                None \<Rightarrow> s2
              | Some ent \<Rightarrow>
                  if isDrawableEntity (entState ent) \<and> \<not> spaceKey s2 \<and> getIsPrimaryMouseDown e
                  then (let s3 = (if selected ts = ToolBrush then mousemoveBrush u p ts ent s2 else s2);
                            s4 = (if selected ts = ToolEraser then mousemoveEraser u p ts ent s3 else s3)
                        in if selected ts = ToolRect then mousemoveRect u p ent s4 else s4)
                  else s2))"

subsection \<open>mouseleave\<close>

text \<open>
  The position is taken first, then both position cells are cleared. With the primary
  button down and a buffer of the tool's kind, one last point (or the last extent) goes
  into the buffer, with neither the spacing test nor the test for a repeated point, and the
  buffer is committed.
\<close>

definition mouseleave :: "Util \<Rightarrow> MouseEvent \<Rightarrow> CanvasState \<Rightarrow> CanvasState" where
  "mouseleave u e s =
     (let (pos, s1) = updateLastCursorPos e s;
          s2 = s1\<lparr>lastCursorPos := None, lastMouseDownPos := None\<rparr>;
          sel = selectedEntity s2;
          ts = toolState s2
      in case pos of
           None \<Rightarrow> s2
         | Some p \<Rightarrow>
             (case sel of
                None \<Rightarrow> s2
              | Some ent \<Rightarrow>
                  if isDrawableEntity (entState ent) \<and> \<not> spaceKey s2 \<and> getIsPrimaryMouseDown e
                  then (let normalizedPoint = offsetCoord u p (entPosition (entState ent))
                        in case getBuffer s2 of
                             Some (BrushLine i ps w c cl) \<Rightarrow>
                               if selected ts = ToolBrush
                               then (let alignedPoint = alignCoordForTool u normalizedPoint (brushWidth ts)
                                     in commitBuffer
                                          (setBuffer (BrushLine i (ps @ [cx alignedPoint, cy alignedPoint]) w c cl) s2))
                               else s2
                           | Some (EraserLine i ps w cl) \<Rightarrow>
                               if selected ts = ToolEraser
                               then (let alignedPoint = alignCoordForTool u normalizedPoint (eraserWidth ts)
                                     in commitBuffer
                                          (setBuffer (EraserLine i (ps @ [cx alignedPoint, cy alignedPoint]) w cl) s2))
                               else s2
                           | Some (RectObj i r c) \<Rightarrow>
                               if selected ts = ToolRect
                               then commitBuffer
                                      (setBuffer (RectObj i (r\<lparr>rectWidth := of_int (round (cx normalizedPoint - rectX r)),
                                                               rectHeight := of_int (round (cy normalizedPoint - rectY r))\<rparr>) c) s2)
                               else s2
                           | _ \<Rightarrow> s2)
                  else s2))"

subsection \<open>Keys\<close>

text \<open>
  \<^verbatim>\<open>onKeyDown\<close> and \<^verbatim>\<open>onKeyUp\<close>. A repeated key and a key aimed at an input or text area
  return at once. Escape clears the buffer of the selected entity; the space bar buffers
  the selected tool and selects the view tool, and on release selects the buffered tool,
  or the move tool when there is none (\<^verbatim>\<open>toolBuffer ?? 'move'\<close>).
\<close>

definition onKeyDown :: "KeyboardEvent \<Rightarrow> CanvasState \<Rightarrow> CanvasState" where
  "onKeyDown e s =
     (if repeat e then s
      else if targetIsTextInput e then s
      else if key e = ''Escape''
      then (case selectedEntity s of
              None \<Rightarrow> s
            | Some ent \<Rightarrow> (clearBuffer s)\<lparr>lastMouseDownPos := None\<rparr>)
      else if key e = '' ''
      then (let s1 = setToolBuffer (Some (selected (toolState s))) s;
                s2 = setTool ToolView s1
            in s2\<lparr>spaceKey := True, lastCursorPos := None, lastMouseDownPos := None\<rparr>)
      else s)"

definition onKeyUp :: "KeyboardEvent \<Rightarrow> CanvasState \<Rightarrow> CanvasState" where
  "onKeyUp e s =
     (if repeat e then s
      else if targetIsTextInput e then s
      else if key e = '' ''
      then (let toolBuffer = selectedBuffer (toolState s);
                s1 = setTool (case toolBuffer of Some t \<Rightarrow> t | None \<Rightarrow> ToolMove) s;
                s2 = setToolBuffer None s1
            in s2\<lparr>spaceKey := False\<rparr>)
      else s)"


section \<open>The layer adapter (CanvasLayer)\<close>

subsection \<open>State\<close>

text \<open>
  The entity snapshot a layer is reconciled against. JavaScript compares objects by
  identity: \<^verbatim>\<open>state === this._state\<close>, \<^verbatim>\<open>objects !== this._state.objects\<close> and
  \<^verbatim>\<open>position !== this._state.position\<close> ask whether two references are the same object,
  whatever the objects hold. The snapshot, its object list and its position therefore
  carry their identity as a number (\<open>stRef\<close>, \<open>stObjectsRef\<close>, \<open>stPositionRef\<close>), and the
  comparisons of the code compare these numbers. Opacity and the enabled flag are
  primitive values and are compared as such.
\<close>

record LayerEntity =
  stRef :: nat
  stId :: string
  stIsEnabled :: bool
  stOpacity :: real
  stPosition :: Coordinate
  stPositionRef :: nat
  stObjects :: "CanvasObject list"
  stObjectsRef :: nat

text \<open>
  The calls a layer makes on its Konva nodes, in the order made. A layer's effect on the
  scene is the list of these calls.
\<close>

datatype SceneOp =
    DestroyNode ObjectId
  | AddNode ObjectId
  | UpdateNode ObjectId
  | UpdateImageSource ObjectId string
  | LayerVisible bool
  | LayerListening bool
  | ObjectGroupAttrs real real real real
  | ObjectGroupOpacity real
  | BboxPosition real real
  | BboxAttrs real real real real real
  | BboxVisible bool
  | InteractionRectPosition real real
  | InteractionRectAttrs real real real real
  | InteractionRectVisible bool
  | InteractionRectListening bool
  | TransformerListening bool
  | TransformerNodes bool

text \<open>
  The fields of the class. \<open>objects\<close> is the \<^verbatim>\<open>Map\<close> from object id to scene node, kept as a
  list of entries in insertion order; a node is represented by the object state it shows,
  whose variant is the node's class. \<open>sceneOps\<close> and \<open>stateApiCalls\<close> record the calls made
  on Konva nodes and on the state API. \<^verbatim>\<open>calculateBbox\<close> is debounced: a call of it only
  asks for a later run (\<open>calculateBboxCalls\<close> counts the calls), and the run itself is the
  function \<open>calculateBbox\<close> below; the time in between is outside this model.
  \<open>bboxRequests\<close> are the rectangles sent with pixel data to the worker.
\<close>

record CanvasLayer =
  layerId :: string
  drawingBuffer :: "CanvasObject option"
  layerState :: LayerEntity
  objects :: "(ObjectId \<times> CanvasObject) list"
  bboxNeedsUpdate :: bool
  isFirstRender :: bool
  isTransforming :: bool
  isPendingBboxCalculation :: bool
  rect :: Rect
  bbox :: Rect
  interactionRectScaleX :: real
  interactionRectScaleY :: real
  sceneOps :: "SceneOp list"
  stateApiCalls :: "Command list"
  calculateBboxCalls :: nat
  bboxRequests :: "Rect list"

text \<open>What a layer reads from its manager.\<close>

record Manager =
  scaledBboxPadding :: real
  scaledPixel :: real
  managerToolState :: ToolState
  managerIsSelected :: bool

record UpdateArg =
  argState :: LayerEntity
  argToolState :: ToolState
  argIsSelected :: bool

record Extents =
  minX :: real
  minY :: real
  maxX :: real
  maxY :: real

datatype AssertionError = AssertionError

definition getDefaultRect :: Rect where
  "getDefaultRect = \<lparr>rectX = 0, rectY = 0, rectWidth = 0, rectHeight = 0\<rparr>"

subsection \<open>Rendering one object (_renderObject)\<close>

text \<open>
  The method branches on the object's tag. For each of the four tags it knows, the node
  is looked up by the object's id. Without one, a node of the object's class is made,
  entered in the map and added to the object group, and the result is true. With one, the
  code asserts that it is of the object's class and hands the object to the node's
  \<^verbatim>\<open>update\<close>. An object tagged \<^verbatim>\<open>'rect'\<close> falls through every branch: nothing is looked up
  or made and the result is false.
  Modelled from the spec: the node classes (CanvasBrushLine, CanvasEraserLine, CanvasRect,
  CanvasImage) are not among the sources; by the spec the update call returns whether a
  visual change occurred. Here it occurs when the call is forced or the object differs
  from the one shown.
\<close>

fun sameClass :: "CanvasObject \<Rightarrow> CanvasObject \<Rightarrow> bool" where
  "sameClass (BrushLine i ps w c cl) (BrushLine i' ps' w' c' cl') = True"
| "sameClass (EraserLine i ps w cl) (EraserLine i' ps' w' cl') = True"
| "sameClass (RectShape i r c) (RectShape i' r' c') = True"
| "sameClass (ImageObject i nm w h) (ImageObject i' nm' w' h') = True"
| "sameClass a b = False"

definition nodeUpdate :: "CanvasObject \<Rightarrow> bool \<Rightarrow> CanvasLayer \<Rightarrow> bool \<times> CanvasLayer" where
  "nodeUpdate obj force a =
     (if force \<or> map_of (objects a) (objId obj) \<noteq> Some obj
      then (True, a\<lparr>objects := map (\<lambda>(i, nd). if i = objId obj then (i, obj) else (i, nd)) (objects a),
                     sceneOps := sceneOps a @ [UpdateNode (objId obj)]\<rparr>)
      else (False, a))"

definition renderObject :: "CanvasObject \<Rightarrow> bool \<Rightarrow> CanvasLayer \<Rightarrow> AssertionError + (bool \<times> CanvasLayer)" where
  "renderObject obj force a =
     (case obj of
        RectObj i r c \<Rightarrow> Inr (False, a)
      | _ \<Rightarrow>
          (case map_of (objects a) (objId obj) of
             None \<Rightarrow>
               Inr (True, a\<lparr>objects := objects a @ [(objId obj, obj)],
                             sceneOps := sceneOps a @
                               (case obj of
                                  ImageObject i nm w h \<Rightarrow> [AddNode i, UpdateImageSource i nm]
                                | _ \<Rightarrow> [AddNode (objId obj)])\<rparr>)
           | Some nd \<Rightarrow>
               if sameClass nd obj then Inr (nodeUpdate obj force a) else Inl AssertionError))"

fun renderObjects :: "CanvasObject list \<Rightarrow> bool \<Rightarrow> CanvasLayer \<Rightarrow> AssertionError + (bool \<times> CanvasLayer)" where
  "renderObjects [] didUpdate a = Inr (didUpdate, a)"
| "renderObjects (obj # rest) didUpdate a =
     (case renderObject obj False a of
        Inl err \<Rightarrow> Inl err
      | Inr (r, a') \<Rightarrow> renderObjects rest (didUpdate \<or> r) a')"

subsection \<open>The bounding box (updateBbox, calculateBbox)\<close>

text \<open>
  \<^verbatim>\<open>updateBbox\<close>: nothing while a calculation is pending. With a bbox of no width or no
  height the bbox outline and the interaction rectangle are hidden, and an entity reset is
  sent when this is not the first render and the layer has objects.
\<close>

definition updateBbox :: "Manager \<Rightarrow> CanvasLayer \<Rightarrow> CanvasLayer" where
  "updateBbox m a =
     (if isPendingBboxCalculation a then a
      else if rectWidth (bbox a) = 0 \<or> rectHeight (bbox a) = 0
      then (let a1 = (if \<not> isFirstRender a \<and> length (objects a) > 0
                      then a\<lparr>stateApiCalls := stateApiCalls a @ [EntityReset (layerId a)]\<rparr>
                      else a)
            in a1\<lparr>sceneOps := sceneOps a1 @ [BboxVisible False, InteractionRectVisible False]\<rparr>)
      else (let onePixel = scaledPixel m;
                bboxPadding = scaledBboxPadding m;
                px = cx (stPosition (layerState a));
                py = cy (stPosition (layerState a))
            in a\<lparr>sceneOps := sceneOps a @
                 [BboxVisible True, InteractionRectVisible True,
                  BboxAttrs (px + rectX (bbox a) - bboxPadding) (py + rectY (bbox a) - bboxPadding)
                    (rectWidth (bbox a) + bboxPadding * 2) (rectHeight (bbox a) + bboxPadding * 2) onePixel,
                  InteractionRectAttrs (px + rectX (bbox a)) (py + rectY (bbox a))
                    (rectWidth (bbox a)) (rectHeight (bbox a)),
                  ObjectGroupAttrs (px + rectX (bbox a)) (py + rectY (bbox a)) (rectX (bbox a)) (rectY (bbox a))]\<rparr>))"

text \<open>
  Whether the bbox must come from pixel data: some node is an eraser line, an image, or a
  brush line with a clip.
\<close>

fun needsPixel :: "CanvasObject \<Rightarrow> bool" where
  "needsPixel (EraserLine i ps w cl) = True"
| "needsPixel (ImageObject i nm w h) = True"
| "needsPixel (BrushLine i ps w c cl) = (cl \<noteq> None)"
| "needsPixel (RectShape i r c) = False"
| "needsPixel (RectObj i r c) = False"

definition needsPixelBbox :: "CanvasLayer \<Rightarrow> bool" where
  "needsPixelBbox a = list_ex (\<lambda>(i, nd). needsPixel nd) (objects a)"

text \<open>
  One run of \<^verbatim>\<open>calculateBbox\<close>. \<open>clientRect\<close> is what Konva answers to
  \<^verbatim>\<open>objectGroup.getClientRect({ skipTransform: true })\<close> and \<open>hasContext\<close> whether the clone's
  canvas gives a 2d context. On the pixel path the run ends with the request to the worker
  (or, without a context, with the calculation left pending); the worker's answer arrives in
  \<open>bboxCallback\<close>, the function handed to \<^verbatim>\<open>requestBbox\<close>.
\<close>

definition calculateBbox :: "Manager \<Rightarrow> Rect \<Rightarrow> bool \<Rightarrow> CanvasLayer \<Rightarrow> CanvasLayer" where
  "calculateBbox m clientRect hasContext a =
     (let a1 = a\<lparr>isPendingBboxCalculation := True\<rparr>
      in if length (objects a1) = 0
         then updateBbox m (a1\<lparr>rect := getDefaultRect, bbox := getDefaultRect,
                                isPendingBboxCalculation := False\<rparr>)
         else if \<not> needsPixelBbox a1
         then updateBbox m (a1\<lparr>rect := clientRect, bbox := clientRect,
                                isPendingBboxCalculation := False\<rparr>)
         else if \<not> hasContext then a1
         else a1\<lparr>bboxRequests := bboxRequests a1 @ [clientRect]\<rparr>)"

definition bboxCallback :: "Manager \<Rightarrow> Rect \<Rightarrow> Extents option \<Rightarrow> CanvasLayer \<Rightarrow> CanvasLayer" where
  "bboxCallback m clientRect extents a =
     (let a1 = (case extents of
                  Some ex \<Rightarrow>
                    a\<lparr>rect := clientRect,
                      bbox := \<lparr>rectX = rectX clientRect + minX ex, rectY = rectY clientRect + minY ex,
                               rectWidth = maxX ex - minX ex, rectHeight = maxY ex - minY ex\<rparr>\<rparr>
                | None \<Rightarrow> a\<lparr>bbox := getDefaultRect, rect := getDefaultRect\<rparr>)
      in updateBbox m (a1\<lparr>isPendingBboxCalculation := False\<rparr>))"


subsection \<open>Reconciliation (update and the methods it calls)\<close>

text \<open>
  Each method takes its argument as an option, as the code reads it with a default
  (\<^verbatim>\<open>get(arg, 'isEnabled', this._state.isEnabled)\<close>).
\<close>

definition updateVisibility :: "bool option \<Rightarrow> CanvasLayer \<Rightarrow> CanvasLayer" where
  "updateVisibility arg a =
     (let isEnabled = (case arg of Some b \<Rightarrow> b | None \<Rightarrow> stIsEnabled (layerState a));
          hasObjects = (length (objects a) > 0 \<or> drawingBuffer a \<noteq> None)
      in a\<lparr>sceneOps := sceneOps a @ [LayerVisible (isEnabled \<and> hasObjects)]\<rparr>)"

definition updatePosition :: "Manager \<Rightarrow> Coordinate option \<Rightarrow> CanvasLayer \<Rightarrow> CanvasLayer" where
  "updatePosition m arg a =
     (let position = (case arg of Some p \<Rightarrow> p | None \<Rightarrow> stPosition (layerState a));
          bboxPadding = scaledBboxPadding m
      in a\<lparr>sceneOps := sceneOps a @
           [ObjectGroupAttrs (cx position + rectX (bbox a)) (cy position + rectY (bbox a))
              (rectX (bbox a)) (rectY (bbox a)),
            BboxPosition (cx position + rectX (bbox a) - bboxPadding)
              (cy position + rectY (bbox a) - bboxPadding),
            InteractionRectPosition (cx position + rectX (bbox a) * interactionRectScaleX a)
              (cy position + rectY (bbox a) * interactionRectScaleY a)]\<rparr>)"

definition updateOpacity :: "real option \<Rightarrow> CanvasLayer \<Rightarrow> CanvasLayer" where
  "updateOpacity arg a =
     (let opacity = (case arg of Some v \<Rightarrow> v | None \<Rightarrow> stOpacity (layerState a))
      in a\<lparr>sceneOps := sceneOps a @ [ObjectGroupOpacity opacity]\<rparr>)"

definition updateInteraction :: "Manager \<Rightarrow> (ToolState \<times> bool) option \<Rightarrow> CanvasLayer \<Rightarrow> CanvasLayer" where
  "updateInteraction m arg a =
     (let ts = (case arg of Some (t, b) \<Rightarrow> t | None \<Rightarrow> managerToolState m);
          isSelected = (case arg of Some (t, b) \<Rightarrow> b | None \<Rightarrow> managerIsSelected m)
      in if length (objects a) = 0
         then a\<lparr>sceneOps := sceneOps a @ [LayerListening False]\<rparr>
         else if isSelected \<and> \<not> isTransforming a \<and> selected ts = ToolMove
         then a\<lparr>sceneOps := sceneOps a @
                [LayerListening True, TransformerListening False, TransformerNodes False,
                 BboxVisible True, InteractionRectListening True]\<rparr>
         else if isSelected \<and> isTransforming a
         then (let listening = (selected ts \<noteq> ToolView)
               in a\<lparr>sceneOps := sceneOps a @
                    [LayerListening listening, InteractionRectListening listening,
                     TransformerListening listening, TransformerNodes True, BboxVisible False]\<rparr>)
         else a\<lparr>sceneOps := sceneOps a @
                [LayerListening False, TransformerListening False, TransformerNodes False,
                 BboxVisible False, InteractionRectListening False]\<rparr>)"

text \<open>
  \<^verbatim>\<open>updateObjects\<close>: nodes whose id is neither in the new list nor the buffer's are removed
  from the map and destroyed; every object of the list is rendered, then the buffer if
  there is one; if anything changed, \<^verbatim>\<open>calculateBbox\<close> is called. Its last statement
  clears \<^verbatim>\<open>_isFirstRender\<close>.
\<close>

definition updateObjects :: "CanvasObject list option \<Rightarrow> CanvasLayer \<Rightarrow> AssertionError + CanvasLayer" where
  "updateObjects arg a =
     (let objs = (case arg of Some os \<Rightarrow> os | None \<Rightarrow> stObjects (layerState a));
          objectIds = map objId objs;
          gone = (\<lambda>(i, nd). i \<notin> set objectIds \<and> Some i \<noteq> map_option objId (drawingBuffer a));
          destroyed = filter gone (objects a);
          a1 = a\<lparr>objects := filter (\<lambda>e. \<not> gone e) (objects a),
                 sceneOps := sceneOps a @ map (\<lambda>(i, nd). DestroyNode i) destroyed\<rparr>
      in case renderObjects objs (destroyed \<noteq> []) a1 of
           Inl err \<Rightarrow> Inl err
         | Inr (d2, a2) \<Rightarrow>
             (case (case drawingBuffer a2 of
                      None \<Rightarrow> Inr (d2, a2)
                    | Some b \<Rightarrow>
                        (case renderObject b False a2 of
                           Inl err \<Rightarrow> Inl err
                         | Inr (r, a') \<Rightarrow> Inr (d2 \<or> r, a'))) of
                Inl err \<Rightarrow> Inl err
              | Inr (didUpdate, a3) \<Rightarrow>
                  (let a4 = (if didUpdate
                             then a3\<lparr>calculateBboxCalls := Suc (calculateBboxCalls a3)\<rparr> else a3)
                   in Inr (a4\<lparr>isFirstRender := False\<rparr>))))"

text \<open>
  \<^verbatim>\<open>update\<close>. The first test returns at once when this is not the first render and the
  state is the object last reconciled. Otherwise each part is brought up to date when this
  is the first render or its reference (value, for opacity and the enabled flag) changed;
  \<^verbatim>\<open>this._isFirstRender\<close> is read anew at each test. At the end the state is stored and the
  flag cleared.
\<close>

definition update :: "Manager \<Rightarrow> UpdateArg option \<Rightarrow> CanvasLayer \<Rightarrow> AssertionError + CanvasLayer" where
  "update m arg a =
     (let state = (case arg of Some r \<Rightarrow> argState r | None \<Rightarrow> layerState a);
          ts = (case arg of Some r \<Rightarrow> argToolState r | None \<Rightarrow> managerToolState m);
          isSelected = (case arg of Some r \<Rightarrow> argIsSelected r | None \<Rightarrow> managerIsSelected m)
      in if \<not> isFirstRender a \<and> stRef state = stRef (layerState a) then Inr a
         else (case (if isFirstRender a \<or> stObjectsRef state \<noteq> stObjectsRef (layerState a)
                     then updateObjects (Some (stObjects state)) a else Inr a) of
                 Inl err \<Rightarrow> Inl err
               | Inr a1 \<Rightarrow>
                   (let a2 = (if isFirstRender a1 \<or> stPositionRef state \<noteq> stPositionRef (layerState a1)
                              then updatePosition m (Some (stPosition state)) a1 else a1);
                        a3 = (if isFirstRender a2 \<or> stOpacity state \<noteq> stOpacity (layerState a2)
                              then updateOpacity (Some (stOpacity state)) a2 else a2);
                        a4 = (if isFirstRender a3 \<or> stIsEnabled state \<noteq> stIsEnabled (layerState a3)
                              then updateVisibility (Some (stIsEnabled state)) a3 else a3);
                        a5 = updateInteraction m (Some (ts, isSelected)) a4;
                        a6 = (if isFirstRender a5 then updateBbox m a5 else a5)
                    in Inr (a6\<lparr>layerState := state, isFirstRender := False\<rparr>))))"


section \<open>Notions used in the statements\<close>

text \<open>The persisted object list of the selected entity, and the points of a line buffer.\<close>

definition persistedObjects :: "CanvasState \<Rightarrow> CanvasObject list" where
  "persistedObjects s = (case selectedEntity s of None \<Rightarrow> [] | Some ent \<Rightarrow> entObjects (entState ent))"

fun linePoints :: "CanvasObject \<Rightarrow> real list option" where
  "linePoints (BrushLine i ps w c cl) = Some ps"
| "linePoints (EraserLine i ps w cl) = Some ps"
| "linePoints (RectShape i r c) = None"
| "linePoints (ImageObject i nm w h) = None"
| "linePoints (RectObj i r c) = None"

definition bufferPoints :: "CanvasState \<Rightarrow> real list option" where
  "bufferPoints s = (case getBuffer s of None \<Rightarrow> None | Some b \<Rightarrow> linePoints b)"

text \<open>
  The buffer's tag is the one the handlers test for under the tool: \<^verbatim>\<open>'brush_line'\<close> for
  the brush, \<^verbatim>\<open>'eraser_line'\<close> for the eraser, \<^verbatim>\<open>'rect'\<close> for the rectangle tool.
\<close>

fun toolMatchesBuffer :: "Tool \<Rightarrow> CanvasObject \<Rightarrow> bool" where
  "toolMatchesBuffer ToolBrush (BrushLine i ps w c cl) = True"
| "toolMatchesBuffer ToolEraser (EraserLine i ps w cl) = True"
| "toolMatchesBuffer ToolRect (RectObj i r c) = True"
| "toolMatchesBuffer t b = False"

text \<open>The stroke width of the selected tool, as \<^verbatim>\<open>getNextPoint\<close> chooses it.\<close>

definition activeWidth :: "ToolState \<Rightarrow> real" where
  "activeWidth ts = (if selected ts = ToolBrush then brushWidth ts else eraserWidth ts)"

text \<open>
  On a flat list of coordinates \<open>x\<^sub>0, y\<^sub>0, x\<^sub>1, y\<^sub>1, \<dots>\<close>: every two consecutive points are
  at least \<open>d\<close> apart; no two consecutive points are equal.
\<close>

fun pointsSpaced :: "real \<Rightarrow> real list \<Rightarrow> bool" where
  "pointsSpaced d (a # b # a' # b' # rest) = (d \<le> hypot (a - a') (b - b') \<and> pointsSpaced d (a' # b' # rest))"
| "pointsSpaced d ps = True"

fun noRepeatedPoint :: "real list \<Rightarrow> bool" where
  "noRepeatedPoint (a # b # a' # b' # rest) = ((a \<noteq> a' \<or> b \<noteq> b') \<and> noRepeatedPoint (a' # b' # rest))"
| "noRepeatedPoint ps = True"

definition strokeWellFormed :: "CanvasState \<Rightarrow> bool" where
  "strokeWellFormed s =
     (case bufferPoints s of
        None \<Rightarrow> True
      | Some ps \<Rightarrow> even (length ps) \<and> noRepeatedPoint ps)"

text \<open>The snapshot a call of \<^verbatim>\<open>update\<close> reconciles against: the argument's, else the current one.\<close>

definition stateOf :: "UpdateArg option \<Rightarrow> CanvasLayer \<Rightarrow> LayerEntity" where
  "stateOf arg a = (case arg of Some r \<Rightarrow> argState r | None \<Rightarrow> layerState a)"

subsection \<open>Events of a session\<close>

text \<open>
  \<^verbatim>\<open>setStageEventHandlers\<close> registers the handlers on the stage and the window; a session is
  a sequence of the events they are registered for, with the tool selections made
  elsewhere in the interface (\<^verbatim>\<open>toolChanged\<close>) in between.
\<close>

datatype StageEvent =
    MouseDown MouseEvent
  | MouseUp
  | MouseMove MouseEvent
  | MouseLeave MouseEvent
  | KeyDown KeyboardEvent
  | KeyUp KeyboardEvent
  | ToolSelected Tool

fun handleEvent :: "Util \<Rightarrow> StageEvent \<Rightarrow> CanvasState \<Rightarrow> CanvasState" where
  "handleEvent u (MouseDown e) s = mousedown u e s"
| "handleEvent u MouseUp s = mouseup s"
| "handleEvent u (MouseMove e) s = mousemove u e s"
| "handleEvent u (MouseLeave e) s = mouseleave u e s"
| "handleEvent u (KeyDown k) s = onKeyDown k s"
| "handleEvent u (KeyUp k) s = onKeyUp k s"
| "handleEvent u (ToolSelected t) s = setTool t s"

text \<open>The identifier of the buffer, when there is one, is one the supply has issued.\<close>

definition bufferIdIssued :: "CanvasState \<Rightarrow> bool" where
  "bufferIdIssued s = (case getBuffer s of None \<Rightarrow> True | Some b \<Rightarrow> snd (objId b) < nextId s)"

subsection \<open>Concrete inputs\<close>

text \<open>
  A session with one raster layer selected, at a given position, with no objects and no
  buffer, brush and eraser 50 wide; a mouse event with the primary button down at a given
  position; a mouse event with no cursor over the stage; the space bar.
\<close>

definition exampleFill :: RgbaColor where
  "exampleFill = \<lparr>colR = 0, colG = 0, colB = 0, colA = 1\<rparr>"

definition exampleTool :: "Tool \<Rightarrow> ToolState" where
  "exampleTool t = \<lparr>selected = t, selectedBuffer = None, invertScroll = False,
                    fill = exampleFill, brushWidth = 50, eraserWidth = 50\<rparr>"

definition exampleState :: "Tool \<Rightarrow> Coordinate \<Rightarrow> CanvasState" where
  "exampleState t pos =
     \<lparr>toolState = exampleTool t, isMouseDown = False, lastMouseDownPos = None, lastCursorPos = None,
      lastAddedPoint = None, spaceKey = False, colorUnderCursor = None,
      selectedEntity = Some \<lparr>entState = \<lparr>entId = ''layer1'', entType = RasterLayer,
                                          entPosition = pos, entObjects = []\<rparr>,
                              adapter = \<lparr>adapterId = ''layer1'', buffer = None\<rparr>\<rparr>,
      clipToBbox = True, bboxRect = \<lparr>rectX = 0, rectY = 0, rectWidth = 512, rectHeight = 512\<rparr>,
      stageX = 0, stageY = 0, stageWidth = 512, stageHeight = 512, stageScaleX = 1, stageScaleY = 1,
      nextId = 0, dispatched = []\<rparr>"

definition primaryAt :: "real \<Rightarrow> real \<Rightarrow> MouseEvent" where
  "primaryAt a b = \<lparr>scaledCursor = Some \<lparr>cx = a, cy = b\<rparr>, buttons = 1, shiftKey = False,
                    pointerPosition = Some \<lparr>cx = a, cy = b\<rparr>,
                    pixelAt = (\<lambda>p. Some [255, 128, 0, 255])\<rparr>"

definition offStage :: MouseEvent where
  "offStage = \<lparr>scaledCursor = None, buttons = 0, shiftKey = False,
               pointerPosition = None, pixelAt = (\<lambda>p. None)\<rparr>"

definition spaceBar :: KeyboardEvent where
  "spaceBar = \<lparr>key = '' '', repeat = False, targetIsTextInput = False\<rparr>"

text \<open>
  A layer adapter as its constructor leaves it, and a snapshot holding one rectangle of no
  width.
\<close>

definition exampleNode :: CanvasObject where
  "exampleNode = RectShape (''brush_line'', 7)
                   \<lparr>rectX = 0, rectY = 0, rectWidth = 0, rectHeight = 4\<rparr> exampleFill"

definition exampleEntity :: LayerEntity where
  "exampleEntity = \<lparr>stRef = 1, stId = ''layer1'', stIsEnabled = True, stOpacity = 1,
                    stPosition = \<lparr>cx = 0, cy = 0\<rparr>, stPositionRef = 2,
                    stObjects = [exampleNode], stObjectsRef = 3\<rparr>"

definition exampleLayer :: CanvasLayer where
  "exampleLayer = \<lparr>layerId = ''layer1'', drawingBuffer = None,
                   layerState = exampleEntity\<lparr>stRef := 0, stObjects := [], stObjectsRef := 0\<rparr>,
                   objects = [], bboxNeedsUpdate = True, isFirstRender = True,
                   isTransforming = False, isPendingBboxCalculation = False,
                   rect = getDefaultRect, bbox = getDefaultRect,
                   interactionRectScaleX = 1, interactionRectScaleY = 1,
                   sceneOps = [], stateApiCalls = [], calculateBboxCalls = 0, bboxRequests = []\<rparr>"

definition exampleArg :: "Tool \<Rightarrow> bool \<Rightarrow> UpdateArg" where
  "exampleArg t sel = \<lparr>argState = exampleEntity, argToolState = exampleTool t, argIsSelected = sel\<rparr>"

definition exampleManager :: Manager where
  "exampleManager = \<lparr>scaledBboxPadding = 1, scaledPixel = 1,
                     managerToolState = exampleTool ToolMove, managerIsSelected = True\<rparr>"


section \<open>Properties\<close>

lemma clamp_bounds: "lower \<le> upper \<Longrightarrow> lower \<le> clamp v lower upper \<and> clamp v lower upper \<le> upper"
  by (simp add: clamp_def Let_def)

lemma clamp_between: "lower \<le> v \<Longrightarrow> v \<le> upper \<Longrightarrow> clamp v lower upper = v"
  by (simp add: clamp_def Let_def)

lemma clamp_mono: "a \<le> b \<Longrightarrow> clamp a lower upper \<le> clamp b lower upper"
  by (simp add: clamp_def Let_def)

lemma targetDelta_sign:
  "(0 < delta \<longrightarrow> 0 < targetDelta w delta) \<and> (delta < 0 \<longrightarrow> targetDelta w delta < 0)
   \<and> (delta = 0 \<longrightarrow> targetDelta w delta = 0)"
  by (simp add: targetDelta_def zero_less_mult_iff mult_less_0_iff)

lemma finalDelta_sign:
  "(0 < delta \<longrightarrow> 0 \<le> finalDelta w delta) \<and> (delta < 0 \<longrightarrow> finalDelta w delta \<le> 0)
   \<and> (delta = 0 \<longrightarrow> finalDelta w delta = 0)"
  using targetDelta_sign [of delta w] by (auto simp: finalDelta_def clamp_def Let_def)

lemma finalDelta_abs: "\<bar>finalDelta w delta\<bar> \<le> 20"
  using clamp_bounds [of "- 20" 20 "targetDelta w delta"] by (simp add: finalDelta_def abs_le_iff)

text \<open>
  C4. For a width in [1, 500] and any wheel delta: the result lies in [1, 500]; the
  clamped per-tick delta and the change actually applied to the width are at most 20 in
  magnitude; a positive delta never decreases the width, a negative one never increases
  it, a zero delta leaves it unchanged; and the result depends on the delta only through
  its sign (the function reads nothing but its two arguments, so it is deterministic).
\<close>

theorem calculateNewBrushSize_range_step_sign:
  assumes "1 \<le> w" and "w \<le> 500"
  shows "1 \<le> calculateNewBrushSize w delta \<and> calculateNewBrushSize w delta \<le> 500
    \<and> \<bar>finalDelta w delta\<bar> \<le> 20
    \<and> \<bar>calculateNewBrushSize w delta - w\<bar> \<le> 20
    \<and> (0 < delta \<longrightarrow> w \<le> calculateNewBrushSize w delta)
    \<and> (delta < 0 \<longrightarrow> calculateNewBrushSize w delta \<le> w)
    \<and> (delta = 0 \<longrightarrow> calculateNewBrushSize w delta = w)
    \<and> (sgn delta' = sgn delta \<longrightarrow> calculateNewBrushSize w delta' = calculateNewBrushSize w delta)"
proof -
  let ?f = "finalDelta w delta"
  let ?n = "calculateNewBrushSize w delta"
  have n: "?n = clamp (w + ?f) 1 500"
    by (simp add: calculateNewBrushSize_def)
  have range: "1 \<le> ?n \<and> ?n \<le> 500"
    unfolding n by (rule clamp_bounds) simp
  have fabs: "\<bar>?f\<bar> \<le> 20"
    by (rule finalDelta_abs)
  have self: "clamp w 1 500 = w"
    using assms by (rule clamp_between)
  have up: "0 \<le> ?f \<Longrightarrow> w \<le> ?n \<and> ?n \<le> w + ?f"
  proof -
    assume f: "0 \<le> ?f"
    have "clamp w 1 500 \<le> clamp (w + ?f) 1 500"
      by (rule clamp_mono) (use f in simp)
    moreover have "clamp (w + ?f) 1 500 \<le> w + ?f"
      using assms f by (simp add: clamp_def Let_def)
    ultimately show ?thesis using self n by simp
  qed
  have down: "?f \<le> 0 \<Longrightarrow> ?n \<le> w \<and> w + ?f \<le> ?n"
  proof -
    assume f: "?f \<le> 0"
    have "clamp (w + ?f) 1 500 \<le> clamp w 1 500"
      by (rule clamp_mono) (use f in simp)
    moreover have "w + ?f \<le> clamp (w + ?f) 1 500"
      using assms f by (simp add: clamp_def Let_def)
    ultimately show ?thesis using self n by simp
  qed
  have step: "\<bar>?n - w\<bar> \<le> 20"
  proof (cases "0 \<le> ?f")
    case True
    then show ?thesis using up fabs by (simp add: abs_le_iff)
  next
    case False
    then show ?thesis using down fabs by (simp add: abs_le_iff)
  qed
  have pos: "0 < delta \<longrightarrow> w \<le> ?n"
    using finalDelta_sign [of delta w] up by blast
  have neg: "delta < 0 \<longrightarrow> ?n \<le> w"
    using finalDelta_sign [of delta w] down by blast
  have zero: "delta = 0 \<longrightarrow> ?n = w"
    using finalDelta_sign [of delta w] self by (auto simp: calculateNewBrushSize_def)
  have sign: "sgn delta' = sgn delta \<longrightarrow> calculateNewBrushSize w delta' = ?n"
    by (simp add: calculateNewBrushSize_def finalDelta_def targetDelta_def)
  from range fabs step pos neg zero sign show ?thesis by blast
qed

theorem calculateNewBrushSize_witness:
  "(1::real) \<le> 50 \<and> (50::real) \<le> 500
   \<and> 50 \<le> calculateNewBrushSize 50 100 \<and> calculateNewBrushSize 50 100 \<le> 70
   \<and> 30 \<le> calculateNewBrushSize 50 (- 100) \<and> calculateNewBrushSize 50 (- 100) \<le> 50
   \<and> calculateNewBrushSize 50 0 = 50
   \<and> calculateNewBrushSize 50 3 = calculateNewBrushSize 50 100"
proof -
  have a: "(1::real) \<le> 50" and b: "(50::real) \<le> 500" by simp_all
  show ?thesis
    using calculateNewBrushSize_range_step_sign [OF a b, of 100 3]
      calculateNewBrushSize_range_step_sign [OF a b, of "- 100" 0]
      calculateNewBrushSize_range_step_sign [OF a b, of 0 0]
    by (simp add: abs_le_iff)
qed

subsection \<open>Committing the buffer\<close>

text \<open>
  C10. Whatever the variant of the committed buffer (brush line, eraser line or
  rectangle), the identifier it is given at commit time is made with the prefix
  \<^verbatim>\<open>brush_line\<close>: the object sent to the state API carries the id
  \<open>(''brush_line'', n)\<close>, so the prefix of a persisted object's id does not tell its variant.
\<close>

theorem finalizeDrawingBuffer_brush_line_prefix:
  "finalizeDrawingBuffer lid (Some (BrushLine i ps w c cl)) n
     = (None, [BrushLineAdded lid (BrushLine (''brush_line'', n) ps w c cl)], Suc n)
   \<and> finalizeDrawingBuffer lid (Some (EraserLine i ps w cl)) n
     = (None, [EraserLineAdded lid (EraserLine (''brush_line'', n) ps w cl)], Suc n)
   \<and> finalizeDrawingBuffer lid (Some (RectShape i r c)) n
     = (None, [RectShapeAdded lid (RectShape (''brush_line'', n) r c)], Suc n)"
  by (simp add: finalizeDrawingBuffer_def getPrefixedId_def)

subsection \<open>The bounding box of a layer\<close>

lemma updateBbox_rect_bbox: "rect (updateBbox m a) = rect a \<and> bbox (updateBbox m a) = bbox a"
  by (simp add: updateBbox_def Let_def)

text \<open>
  C8. When the bounding box of a layer is computed while its object collection is empty,
  both \<open>rect\<close> and \<open>bbox\<close> are the zero rectangle \<open>{x: 0, y: 0, width: 0, height: 0}\<close>.
\<close>

theorem calculateBbox_no_objects:
  assumes "objects a = []"
  shows "rect (calculateBbox m clientRect hasContext a)
           = \<lparr>rectX = 0, rectY = 0, rectWidth = 0, rectHeight = 0\<rparr>
       \<and> bbox (calculateBbox m clientRect hasContext a)
           = \<lparr>rectX = 0, rectY = 0, rectWidth = 0, rectHeight = 0\<rparr>"
  using assms by (simp add: calculateBbox_def Let_def updateBbox_rect_bbox getDefaultRect_def)

theorem calculateBbox_no_objects_witness:
  "objects (exampleLayer\<lparr>rect := \<lparr>rectX = 1, rectY = 2, rectWidth = 3, rectHeight = 4\<rparr>,
                          bbox := \<lparr>rectX = 1, rectY = 2, rectWidth = 3, rectHeight = 4\<rparr>\<rparr>) = []
   \<and> rect (calculateBbox exampleManager \<lparr>rectX = 1, rectY = 2, rectWidth = 3, rectHeight = 4\<rparr> True
            (exampleLayer\<lparr>rect := \<lparr>rectX = 1, rectY = 2, rectWidth = 3, rectHeight = 4\<rparr>,
                          bbox := \<lparr>rectX = 1, rectY = 2, rectWidth = 3, rectHeight = 4\<rparr>\<rparr>))
       = \<lparr>rectX = 0, rectY = 0, rectWidth = 0, rectHeight = 0\<rparr>
   \<and> bbox (calculateBbox exampleManager \<lparr>rectX = 1, rectY = 2, rectWidth = 3, rectHeight = 4\<rparr> True
            (exampleLayer\<lparr>rect := \<lparr>rectX = 1, rectY = 2, rectWidth = 3, rectHeight = 4\<rparr>,
                          bbox := \<lparr>rectX = 1, rectY = 2, rectWidth = 3, rectHeight = 4\<rparr>\<rparr>))
       = \<lparr>rectX = 0, rectY = 0, rectWidth = 0, rectHeight = 0\<rparr>"
proof -
  let ?a = "exampleLayer\<lparr>rect := \<lparr>rectX = 1, rectY = 2, rectWidth = 3, rectHeight = 4\<rparr>,
                          bbox := \<lparr>rectX = 1, rectY = 2, rectWidth = 3, rectHeight = 4\<rparr>\<rparr>"
  have empty: "objects ?a = []"
    by (simp add: exampleLayer_def)
  from calculateBbox_no_objects [OF empty] empty show ?thesis
    by blast
qed

lemma updateBbox_first_render:
  "isFirstRender a \<Longrightarrow> stateApiCalls (updateBbox m a) = stateApiCalls a"
  by (simp add: updateBbox_def Let_def)

lemma updateBbox_collapsed:
  assumes "\<not> isPendingBboxCalculation a"
    and "rectWidth (bbox a) = 0 \<or> rectHeight (bbox a) = 0"
  shows "stateApiCalls (updateBbox m a)
         = stateApiCalls a @ (if \<not> isFirstRender a \<and> objects a \<noteq> [] then [EntityReset (layerId a)] else [])"
  using assms by (simp add: updateBbox_def Let_def)

lemma calculateBbox_collapsed:
  assumes "objects a \<noteq> []" and "\<not> needsPixelBbox a"
    and "rectWidth clientRect = 0 \<or> rectHeight clientRect = 0"
  shows "stateApiCalls (calculateBbox m clientRect hasContext a)
         = stateApiCalls a @ (if isFirstRender a then [] else [EntityReset (layerId a)])"
proof -
  let ?a = "a\<lparr>isPendingBboxCalculation := True, rect := clientRect, bbox := clientRect,
               isPendingBboxCalculation := False\<rparr>"
  have "calculateBbox m clientRect hasContext a = updateBbox m ?a"
    using assms(1,2) by (simp add: calculateBbox_def Let_def needsPixelBbox_def)
  moreover have "stateApiCalls (updateBbox m ?a)
      = stateApiCalls ?a @ (if \<not> isFirstRender ?a \<and> objects ?a \<noteq> [] then [EntityReset (layerId ?a)] else [])"
    by (rule updateBbox_collapsed) (use assms(3) in simp_all)
  ultimately show ?thesis using assms(1) by simp
qed

lemma bboxCallback_collapsed:
  assumes "objects a \<noteq> []"
    and "rectWidth (bbox (bboxCallback m clientRect extents a)) = 0
         \<or> rectHeight (bbox (bboxCallback m clientRect extents a)) = 0"
  shows "stateApiCalls (bboxCallback m clientRect extents a)
         = stateApiCalls a @ (if isFirstRender a then [] else [EntityReset (layerId a)])"
proof -
  define a1 where "a1 = (case extents of
                  Some ex \<Rightarrow>
                    a\<lparr>rect := clientRect,
                      bbox := \<lparr>rectX = rectX clientRect + minX ex, rectY = rectY clientRect + minY ex,
                               rectWidth = maxX ex - minX ex, rectHeight = maxY ex - minY ex\<rparr>\<rparr>
                | None \<Rightarrow> a\<lparr>bbox := getDefaultRect, rect := getDefaultRect\<rparr>)\<lparr>isPendingBboxCalculation := False\<rparr>"
  have eq: "bboxCallback m clientRect extents a = updateBbox m a1"
    by (simp add: bboxCallback_def a1_def Let_def)
  have same: "stateApiCalls a1 = stateApiCalls a" "isFirstRender a1 = isFirstRender a"
    "objects a1 = objects a" "layerId a1 = layerId a" "\<not> isPendingBboxCalculation a1"
    by (simp_all add: a1_def split: option.splits)
  have "bbox (updateBbox m a1) = bbox a1"
    by (simp add: updateBbox_rect_bbox)
  with assms(2) eq have z: "rectWidth (bbox a1) = 0 \<or> rectHeight (bbox a1) = 0"
    by simp
  have "stateApiCalls (updateBbox m a1)
      = stateApiCalls a1 @ (if \<not> isFirstRender a1 \<and> objects a1 \<noteq> [] then [EntityReset (layerId a1)] else [])"
    using same(5) z by (rule updateBbox_collapsed)
  then show ?thesis using eq same assms(1) by simp
qed

subsection \<open>Reconciliation\<close>

lemma update_same_ref:
  assumes "\<not> isFirstRender a" and "stRef (stateOf arg a) = stRef (layerState a)"
  shows "update m arg a = Inr a"
  using assms by (simp add: update_def stateOf_def)

lemma update_completed:
  assumes "update m arg a = Inr a1"
  shows "\<not> isFirstRender a1 \<and> stRef (layerState a1) = stRef (stateOf arg a)"
proof (cases "\<not> isFirstRender a \<and> stRef (stateOf arg a) = stRef (layerState a)")
  case True
  then have "update m arg a = Inr a"
    by (simp add: update_same_ref)
  with assms True show ?thesis by simp
next
  case False
  then obtain a' where "a1 = a'\<lparr>layerState := stateOf arg a, isFirstRender := False\<rparr>"
    using assms unfolding update_def stateOf_def Let_def
    by (auto split: sum.splits)
  then show ?thesis by simp
qed

lemmas layer_defs = update_def updateObjects_def renderObject_def nodeUpdate_def updateInteraction_def
  updateVisibility_def updatePosition_def updateOpacity_def updateBbox_def Let_def

text \<open>
  No method that \<^verbatim>\<open>update\<close> reaches calls the state API: rendering, the updates of
  position, opacity, visibility and interaction only touch the scene, and \<^verbatim>\<open>updateBbox\<close>
  is called at the end of \<^verbatim>\<open>update\<close> only while \<^verbatim>\<open>_isFirstRender\<close> is set, which by then it
  is not: on the first pass \<^verbatim>\<open>updateObjects\<close> has run and cleared it.
\<close>

lemma renderObject_stateApiCalls:
  assumes "renderObject obj force a = Inr (r, a')"
  shows "stateApiCalls a' = stateApiCalls a \<and> layerId a' = layerId a"
  using assms
  by (cases obj)
     (auto simp: renderObject_def nodeUpdate_def split: option.splits if_splits)

lemma renderObjects_stateApiCalls:
  "renderObjects objs d a = Inr (r, a') \<Longrightarrow> stateApiCalls a' = stateApiCalls a \<and> layerId a' = layerId a"
proof (induction objs arbitrary: d a)
  case Nil
  then show ?case by simp
next
  case (Cons obj rest)
  from Cons.prems obtain r1 a1 where r1: "renderObject obj False a = Inr (r1, a1)"
    and rest: "renderObjects rest (d \<or> r1) a1 = Inr (r, a')"
    by (auto split: sum.splits)
  from Cons.IH [OF rest] renderObject_stateApiCalls [OF r1] show ?case by simp
qed

lemma updateObjects_stateApiCalls:
  assumes "updateObjects arg a = Inr a1"
  shows "stateApiCalls a1 = stateApiCalls a \<and> layerId a1 = layerId a \<and> \<not> isFirstRender a1"
proof -
  define objs where "objs = (case arg of Some os \<Rightarrow> os | None \<Rightarrow> stObjects (layerState a))"
  define gone where "gone = (\<lambda>(i :: ObjectId, nd :: CanvasObject). i \<notin> set (map objId objs) \<and> Some i \<noteq> map_option objId (drawingBuffer a))"
  define a0 where "a0 = a\<lparr>objects := filter (\<lambda>e. \<not> gone e) (objects a),
                 sceneOps := sceneOps a @ map (\<lambda>(i, nd). DestroyNode i) (filter gone (objects a))\<rparr>"
  from assms obtain d2 a2 where r: "renderObjects objs (filter gone (objects a) \<noteq> []) a0 = Inr (d2, a2)"
    unfolding updateObjects_def Let_def objs_def [symmetric] gone_def [symmetric] a0_def [symmetric]
    by (auto split: sum.splits)
  have f2: "stateApiCalls a2 = stateApiCalls a \<and> layerId a2 = layerId a"
    using renderObjects_stateApiCalls [OF r] by (simp add: a0_def)
  show ?thesis
  proof (cases "drawingBuffer a2")
    case None
    then show ?thesis
      using assms r f2
      unfolding updateObjects_def Let_def objs_def [symmetric] gone_def [symmetric] a0_def [symmetric]
      by auto
  next
    case (Some b)
    from assms r Some obtain r3 a3 where r3: "renderObject b False a2 = Inr (r3, a3)"
      unfolding updateObjects_def Let_def objs_def [symmetric] gone_def [symmetric] a0_def [symmetric]
      by (auto split: sum.splits)
    from renderObject_stateApiCalls [OF r3] f2 show ?thesis
      using assms r Some r3
      unfolding updateObjects_def Let_def objs_def [symmetric] gone_def [symmetric] a0_def [symmetric]
      by auto
  qed
qed

lemma update_parts_fields:
  "stateApiCalls (updatePosition m p a) = stateApiCalls a"
  "isFirstRender (updatePosition m p a) = isFirstRender a"
  "layerId (updatePosition m p a) = layerId a"
  "stateApiCalls (updateOpacity v a) = stateApiCalls a"
  "isFirstRender (updateOpacity v a) = isFirstRender a"
  "layerId (updateOpacity v a) = layerId a"
  "stateApiCalls (updateVisibility b a) = stateApiCalls a"
  "isFirstRender (updateVisibility b a) = isFirstRender a"
  "layerId (updateVisibility b a) = layerId a"
  "stateApiCalls (updateInteraction m t a) = stateApiCalls a"
  "isFirstRender (updateInteraction m t a) = isFirstRender a"
  "layerId (updateInteraction m t a) = layerId a"
  by (simp_all add: updatePosition_def updateOpacity_def updateVisibility_def updateInteraction_def Let_def)

lemma update_stateApiCalls:
  assumes "update m arg a = Inr a1"
  shows "stateApiCalls a1 = stateApiCalls a \<and> layerId a1 = layerId a"
proof (cases "\<not> isFirstRender a \<and> stRef (stateOf arg a) = stRef (layerState a)")
  case True
  then have "update m arg a = Inr a"
    by (simp add: update_same_ref)
  with assms show ?thesis by simp
next
  case False
  let ?st = "stateOf arg a"
  let ?run = "isFirstRender a \<or> stObjectsRef ?st \<noteq> stObjectsRef (layerState a)"
  from False assms obtain b where b: "(if ?run then updateObjects (Some (stObjects ?st)) a else Inr a) = Inr b"
    unfolding update_def stateOf_def Let_def
    by (auto split: sum.splits)
  have fb: "stateApiCalls b = stateApiCalls a \<and> layerId b = layerId a \<and> \<not> isFirstRender b"
  proof (cases ?run)
    case True
    with b have "updateObjects (Some (stObjects ?st)) a = Inr b" by simp
    then show ?thesis by (rule updateObjects_stateApiCalls)
  next
    case nr: False
    with b have "b = a" by simp
    with nr show ?thesis by simp
  qed
  show ?thesis
    using assms False b fb
    unfolding update_def stateOf_def Let_def
    by (auto simp: update_parts_fields)
qed

text \<open>
  C5, as the code has it. A completed call of \<^verbatim>\<open>update\<close>, the first one included, sends
  nothing to the state API and leaves \<^verbatim>\<open>_isFirstRender\<close> cleared; a run of \<^verbatim>\<open>calculateBbox\<close>
  after it, such as the one the first pass asked for, that takes over a client rect of no
  width or no height on a layer with objects sends exactly one entity reset. In general
  \<^verbatim>\<open>updateBbox\<close> sends no entity reset while \<^verbatim>\<open>_isFirstRender\<close> is set, whatever the bbox;
  with the flag cleared, a bbox of no width or no height on a layer that has objects makes
  it send exactly one, provided no calculation is pending; and each way a recomputation
  ends (the client rect taken over by \<^verbatim>\<open>calculateBbox\<close>, the worker's answer in the
  callback) clears the pending flag before it calls \<^verbatim>\<open>updateBbox\<close>, so a recomputed bbox
  that collapsed on a layer with objects is reported as a reset exactly when the flag is
  cleared.
\<close>

theorem update_then_collapsed_bbox_reset:
  assumes "update m arg a = Inr a1"
  shows "stateApiCalls a1 = stateApiCalls a
       \<and> \<not> isFirstRender a1
       \<and> (objects a1 \<noteq> [] \<and> \<not> needsPixelBbox a1 \<and> (rectWidth clientRect = 0 \<or> rectHeight clientRect = 0)
          \<longrightarrow> stateApiCalls (calculateBbox m' clientRect hasContext a1)
                = stateApiCalls a @ [EntityReset (layerId a)])
       \<and> (isFirstRender b \<longrightarrow> stateApiCalls (updateBbox m' b) = stateApiCalls b)
       \<and> (\<not> isFirstRender b \<and> \<not> isPendingBboxCalculation b \<and> objects b \<noteq> []
            \<and> (rectWidth (bbox b) = 0 \<or> rectHeight (bbox b) = 0)
          \<longrightarrow> stateApiCalls (updateBbox m' b) = stateApiCalls b @ [EntityReset (layerId b)])
       \<and> (objects b \<noteq> [] \<and> \<not> needsPixelBbox b \<and> (rectWidth clientRect = 0 \<or> rectHeight clientRect = 0)
          \<longrightarrow> stateApiCalls (calculateBbox m' clientRect hasContext b)
                = stateApiCalls b @ (if isFirstRender b then [] else [EntityReset (layerId b)]))
       \<and> (objects b \<noteq> [] \<and> (rectWidth (bbox (bboxCallback m' clientRect extents b)) = 0
                              \<or> rectHeight (bbox (bboxCallback m' clientRect extents b)) = 0)
          \<longrightarrow> stateApiCalls (bboxCallback m' clientRect extents b)
                = stateApiCalls b @ (if isFirstRender b then [] else [EntityReset (layerId b)]))"
proof -
  have pass: "stateApiCalls a1 = stateApiCalls a" "layerId a1 = layerId a" "\<not> isFirstRender a1"
    using update_stateApiCalls [OF assms] update_completed [OF assms] by simp_all
  have after: "objects a1 \<noteq> [] \<and> \<not> needsPixelBbox a1 \<and> (rectWidth clientRect = 0 \<or> rectHeight clientRect = 0)
          \<longrightarrow> stateApiCalls (calculateBbox m' clientRect hasContext a1)
                = stateApiCalls a @ [EntityReset (layerId a)]"
    using calculateBbox_collapsed [of a1 clientRect m' hasContext] pass by simp
  show ?thesis
    using pass(1,3) after updateBbox_first_render [of b m'] updateBbox_collapsed [of b m']
      calculateBbox_collapsed [of b clientRect m' hasContext]
      bboxCallback_collapsed [of b m' clientRect extents]
    by simp
qed

lemma first_update_example_layer:
  "\<exists>a1. update exampleManager (Some (exampleArg ToolMove True)) exampleLayer = Inr a1
      \<and> objects a1 = [((''brush_line'', 7), exampleNode)]
      \<and> calculateBboxCalls a1 = 1"
  by (simp add: layer_defs exampleLayer_def exampleArg_def exampleEntity_def exampleNode_def
      exampleManager_def exampleTool_def)

theorem update_then_collapsed_bbox_reset_witness:
  "isFirstRender exampleLayer
   \<and> stateApiCalls (updateBbox exampleManager exampleLayer) = []
   \<and> (\<exists>a1. update exampleManager (Some (exampleArg ToolMove True)) exampleLayer = Inr a1
         \<and> stateApiCalls a1 = []
         \<and> \<not> isFirstRender a1
         \<and> objects a1 \<noteq> [] \<and> \<not> needsPixelBbox a1
         \<and> stateApiCalls (calculateBbox exampleManager \<lparr>rectX = 0, rectY = 0, rectWidth = 4, rectHeight = 0\<rparr> True a1)
             = [EntityReset ''layer1''])"
proof -
  let ?r = "\<lparr>rectX = 0, rectY = 0, rectWidth = 4, rectHeight = 0\<rparr>"
  obtain a1 where a1: "update exampleManager (Some (exampleArg ToolMove True)) exampleLayer = Inr a1"
    and objs: "objects a1 = [((''brush_line'', 7), exampleNode)]"
    using first_update_example_layer by auto
  have facts: "isFirstRender exampleLayer" "stateApiCalls exampleLayer = []" "layerId exampleLayer = ''layer1''"
    by (simp_all add: exampleLayer_def)
  have o: "objects a1 \<noteq> []" "\<not> needsPixelBbox a1"
    using objs by (simp_all add: needsPixelBbox_def exampleNode_def)
  have r: "rectWidth ?r = 0 \<or> rectHeight ?r = 0"
    by simp
  note t = update_then_collapsed_bbox_reset [OF a1, of ?r exampleManager True exampleLayer None]
  from t have "stateApiCalls a1 = stateApiCalls exampleLayer" "\<not> isFirstRender a1"
    by blast+
  moreover from t o r have "stateApiCalls (calculateBbox exampleManager ?r True a1)
      = stateApiCalls exampleLayer @ [EntityReset (layerId exampleLayer)]"
    by blast
  moreover from t facts(1) have "stateApiCalls (updateBbox exampleManager exampleLayer) = stateApiCalls exampleLayer"
    by blast
  ultimately show ?thesis
    using a1 o facts by simp
qed

text \<open>
  C5 as stated fails: it exempts the entity's first reconciliation pass whatever the bbox.
  A layer as its constructor leaves it is reconciled for the first time against a snapshot
  holding one rectangle of no width; the pass renders the rectangle and asks for a
  recomputation; the recomputation finds a client rect of no width and sends the reset.
\<close>

theorem first_pass_recomputation_sends_reset:
  "isFirstRender exampleLayer \<and> stateApiCalls exampleLayer = []
   \<and> (\<exists>a1. update exampleManager (Some (exampleArg ToolMove True)) exampleLayer = Inr a1
         \<and> calculateBboxCalls a1 = 1
         \<and> stateApiCalls a1 = []
         \<and> stateApiCalls (calculateBbox exampleManager \<lparr>rectX = 0, rectY = 0, rectWidth = 0, rectHeight = 4\<rparr> True a1)
             = [EntityReset ''layer1''])"
  by (simp add: layer_defs calculateBbox_def needsPixelBbox_def getDefaultRect_def
      exampleLayer_def exampleArg_def exampleEntity_def exampleNode_def
      exampleManager_def exampleTool_def)

text \<open>
  C6. Once a call of \<^verbatim>\<open>update\<close> has completed, a call with the same state reference (the
  argument's, or by default the layer's own) returns at once: the layer comes back as it
  was, with no call on any scene node and none on the state API, whatever tool state and
  selection flag the second call brings.
\<close>

theorem update_twice_same_reference:
  assumes "update m arg a = Inr a1"
    and "stRef (stateOf arg' a1) = stRef (stateOf arg a)"
  shows "update m' arg' a1 = Inr a1"
  using update_completed [OF assms(1)] assms(2) by (intro update_same_ref) simp_all

lemma first_update_example:
  "\<exists>a1. update exampleManager (Some (exampleArg ToolMove True)) exampleLayer = Inr a1
      \<and> sceneOps a1 = [AddNode (''brush_line'', 7), LayerListening True, TransformerListening False,
           TransformerNodes False, BboxVisible True, InteractionRectListening True]
      \<and> calculateBboxCalls a1 = 1"
  by (simp add: layer_defs exampleLayer_def exampleArg_def exampleEntity_def exampleNode_def
      exampleManager_def exampleTool_def)

theorem update_twice_same_reference_witness:
  "\<exists>a1. update exampleManager (Some (exampleArg ToolMove True)) exampleLayer = Inr a1
      \<and> sceneOps a1 \<noteq> []
      \<and> stRef (stateOf (Some (exampleArg ToolBrush False)) a1)
          = stRef (stateOf (Some (exampleArg ToolMove True)) exampleLayer)
      \<and> update (exampleManager\<lparr>scaledPixel := 2\<rparr>) (Some (exampleArg ToolBrush False)) a1 = Inr a1
      \<and> update exampleManager None a1 = Inr a1"
proof -
  obtain a1 where a1: "update exampleManager (Some (exampleArg ToolMove True)) exampleLayer = Inr a1"
    and ops: "sceneOps a1 \<noteq> []"
    using first_update_example by auto
  have r: "stRef (stateOf (Some (exampleArg ToolBrush False)) a1)
          = stRef (stateOf (Some (exampleArg ToolMove True)) exampleLayer)"
    by (simp add: stateOf_def exampleArg_def)
  have n: "stRef (stateOf None a1) = stRef (stateOf (Some (exampleArg ToolMove True)) exampleLayer)"
    using update_completed [OF a1] by (simp add: stateOf_def)
  from update_twice_same_reference [OF a1 r] update_twice_same_reference [OF a1 n] a1 ops r
  show ?thesis by blast
qed

subsection \<open>Keys and the color-pick tool\<close>

text \<open>
  C7. A press of the space bar (not a repeat, not aimed at a text input) stores the
  selected tool in the tool buffer and selects the view tool; a release selects the
  buffered tool, or the move tool when the buffer is empty, and empties the buffer. A press
  followed by a release therefore ends with the tool selected before the press, also when
  another tool was selected in between. A repeated key and a key aimed at a text input
  change nothing.
\<close>

theorem space_bar_round_trip:
  assumes "key down = '' ''" and "\<not> repeat down" and "\<not> targetIsTextInput down"
    and "key up = '' ''" and "\<not> repeat up" and "\<not> targetIsTextInput up"
  shows "selectedBuffer (toolState (onKeyDown down s)) = Some (selected (toolState s))
    \<and> selected (toolState (onKeyDown down s)) = ToolView
    \<and> selected (toolState (onKeyUp up s))
        = (case selectedBuffer (toolState s) of Some t \<Rightarrow> t | None \<Rightarrow> ToolMove)
    \<and> selectedBuffer (toolState (onKeyUp up s)) = None
    \<and> selected (toolState (onKeyUp up (onKeyDown down s))) = selected (toolState s)
    \<and> selected (toolState (onKeyUp up (setTool t (onKeyDown down s)))) = selected (toolState s)
    \<and> (repeat k \<or> targetIsTextInput k \<longrightarrow> onKeyDown k s = s \<and> onKeyUp k s = s)"
  using assms
  by (auto simp: onKeyDown_def onKeyUp_def Let_def setTool_def setToolBuffer_def
      toolChanged_def toolBufferChanged_def)

theorem space_bar_round_trip_witness:
  "key spaceBar = '' '' \<and> \<not> repeat spaceBar \<and> \<not> targetIsTextInput spaceBar
   \<and> selected (toolState (onKeyDown spaceBar (exampleState ToolBrush \<lparr>cx = 0, cy = 0\<rparr>))) = ToolView
   \<and> selectedBuffer (toolState (onKeyDown spaceBar (exampleState ToolBrush \<lparr>cx = 0, cy = 0\<rparr>))) = Some ToolBrush
   \<and> selected (toolState (onKeyUp spaceBar (exampleState ToolBrush \<lparr>cx = 0, cy = 0\<rparr>))) = ToolMove
   \<and> selected (toolState (onKeyUp spaceBar (onKeyDown spaceBar (exampleState ToolBrush \<lparr>cx = 0, cy = 0\<rparr>)))) = ToolBrush
   \<and> selected (toolState (onKeyUp spaceBar (setTool ToolEraser (onKeyDown spaceBar (exampleState ToolBrush \<lparr>cx = 0, cy = 0\<rparr>))))) = ToolBrush
   \<and> repeat (spaceBar\<lparr>repeat := True\<rparr>)
   \<and> onKeyDown (spaceBar\<lparr>repeat := True\<rparr>) (exampleState ToolBrush \<lparr>cx = 0, cy = 0\<rparr>) = exampleState ToolBrush \<lparr>cx = 0, cy = 0\<rparr>
   \<and> onKeyUp (spaceBar\<lparr>repeat := True\<rparr>) (exampleState ToolBrush \<lparr>cx = 0, cy = 0\<rparr>) = exampleState ToolBrush \<lparr>cx = 0, cy = 0\<rparr>"
proof -
  have k: "key spaceBar = '' ''" "\<not> repeat spaceBar" "\<not> targetIsTextInput spaceBar"
    by (simp_all add: spaceBar_def)
  have st: "selected (toolState (exampleState ToolBrush \<lparr>cx = 0, cy = 0\<rparr>)) = ToolBrush"
    "selectedBuffer (toolState (exampleState ToolBrush \<lparr>cx = 0, cy = 0\<rparr>)) = None"
    by (simp_all add: exampleState_def exampleTool_def)
  show ?thesis
    using space_bar_round_trip [OF k k, of "exampleState ToolBrush \<lparr>cx = 0, cy = 0\<rparr>" ToolEraser
        "spaceBar\<lparr>repeat := True\<rparr>"] k st
    by simp
qed

lemma getColorUnderCursor_cases:
  "(pointerPosition e = None \<longrightarrow> getColorUnderCursor e = None)
   \<and> (\<forall>p. pointerPosition e = Some p \<and> pixelAt e p = None \<longrightarrow> getColorUnderCursor e = None)
   \<and> (\<forall>p r g b a rest. pointerPosition e = Some p \<and> pixelAt e p = Some (r # g # b # a # rest)
        \<longrightarrow> getColorUnderCursor e = Some \<lparr>colR = r, colG = g, colB = b, colA = a\<rparr>)"
  by (auto simp: getColorUnderCursor_def split: option.splits list.splits)

lemma mousedown_eyeDropper:
  assumes "selected (toolState s) = ToolEyeDropper"
  shows "colorUnderCursor (mousedown u e s) = getColorUnderCursor e
    \<and> fill (toolState (mousedown u e s))
        = (case getColorUnderCursor e of Some c \<Rightarrow> c | None \<Rightarrow> fill (toolState s))"
  using assms
  by (auto simp: mousedown_def Let_def updateLastCursorPos_def setFill_def fillChanged_def
      split: option.splits prod.splits)

lemma mousemove_eyeDropper:
  assumes "selected (toolState s) = ToolEyeDropper"
  shows "colorUnderCursor (mousemove u e s) = getColorUnderCursor e
    \<and> fill (toolState (mousemove u e s)) = fill (toolState s)"
  using assms
  by (auto simp: mousemove_def Let_def updateLastCursorPos_def
      split: option.splits prod.splits)

text \<open>
  C9. With the color-pick tool selected, a press and a move each publish the sample of
  the pixel under the cursor as the color under cursor; on a press the sample also becomes
  the fill color when it is present, and the fill color stays as it was when it is absent;
  a move never changes the fill color. The sample is absent without a pointer position and
  without pixel data, and is the pixel's four components otherwise. The handlers are total:
  an absent sample raises nothing.
\<close>

theorem eyeDropper_samples_and_fills:
  assumes "selected (toolState s) = ToolEyeDropper"
  shows "colorUnderCursor (mousedown u e s) = getColorUnderCursor e
    \<and> fill (toolState (mousedown u e s))
        = (case getColorUnderCursor e of Some c \<Rightarrow> c | None \<Rightarrow> fill (toolState s))
    \<and> colorUnderCursor (mousemove u e s) = getColorUnderCursor e
    \<and> fill (toolState (mousemove u e s)) = fill (toolState s)
    \<and> (pointerPosition e = None \<longrightarrow> getColorUnderCursor e = None)
    \<and> (\<forall>p. pointerPosition e = Some p \<and> pixelAt e p = None \<longrightarrow> getColorUnderCursor e = None)
    \<and> (\<forall>p r g b a rest. pointerPosition e = Some p \<and> pixelAt e p = Some (r # g # b # a # rest)
         \<longrightarrow> getColorUnderCursor e = Some \<lparr>colR = r, colG = g, colB = b, colA = a\<rparr>)"
  using mousedown_eyeDropper [OF assms, of u e] mousemove_eyeDropper [OF assms, of u e]
    getColorUnderCursor_cases [of e]
  by blast

theorem eyeDropper_samples_and_fills_witness:
  "selected (toolState (exampleState ToolEyeDropper \<lparr>cx = 0, cy = 0\<rparr>)) = ToolEyeDropper
   \<and> colorUnderCursor (mousedown specUtil (primaryAt 3 4) (exampleState ToolEyeDropper \<lparr>cx = 0, cy = 0\<rparr>))
       = Some \<lparr>colR = 255, colG = 128, colB = 0, colA = 255\<rparr>
   \<and> fill (toolState (mousedown specUtil (primaryAt 3 4) (exampleState ToolEyeDropper \<lparr>cx = 0, cy = 0\<rparr>)))
       = \<lparr>colR = 255, colG = 128, colB = 0, colA = 255\<rparr>
   \<and> colorUnderCursor (mousemove specUtil (primaryAt 3 4) (exampleState ToolEyeDropper \<lparr>cx = 0, cy = 0\<rparr>))
       = Some \<lparr>colR = 255, colG = 128, colB = 0, colA = 255\<rparr>
   \<and> fill (toolState (mousemove specUtil (primaryAt 3 4) (exampleState ToolEyeDropper \<lparr>cx = 0, cy = 0\<rparr>)))
       = exampleFill
   \<and> colorUnderCursor (mousedown specUtil offStage (exampleState ToolEyeDropper \<lparr>cx = 0, cy = 0\<rparr>)) = None
   \<and> fill (toolState (mousedown specUtil offStage (exampleState ToolEyeDropper \<lparr>cx = 0, cy = 0\<rparr>)))
       = exampleFill"
proof -
  let ?s = "exampleState ToolEyeDropper \<lparr>cx = 0, cy = 0\<rparr>"
  have t: "selected (toolState ?s) = ToolEyeDropper" and f: "fill (toolState ?s) = exampleFill"
    by (simp_all add: exampleState_def exampleTool_def)
  have e1: "pointerPosition (primaryAt 3 4) = Some \<lparr>cx = 3, cy = 4\<rparr>"
    "pixelAt (primaryAt 3 4) \<lparr>cx = 3, cy = 4\<rparr> = Some [255, 128, 0, 255]"
    and e2: "pointerPosition offStage = None"
    by (simp_all add: primaryAt_def offStage_def)
  have c1: "getColorUnderCursor (primaryAt 3 4) = Some \<lparr>colR = 255, colG = 128, colB = 0, colA = 255\<rparr>"
    using eyeDropper_samples_and_fills [OF t, of specUtil "primaryAt 3 4"] e1 by blast
  have c2: "getColorUnderCursor offStage = None"
    using eyeDropper_samples_and_fills [OF t, of specUtil offStage] e2 by blast
  show ?thesis
    using eyeDropper_samples_and_fills [OF t, of specUtil "primaryAt 3 4"]
      eyeDropper_samples_and_fills [OF t, of specUtil offStage] t f c1 c2
    by simp
qed

subsection \<open>Release of the pointer button\<close>

lemmas mouseup_defs = mouseup_def mouseupBrush_def mouseupEraser_def mouseupRect_def
  commitBuffer_def finalizeDrawingBuffer_def getPrefixedId_def dispatch_def clearBuffer_def
  getBuffer_def persistedObjects_def Let_def

lemmas example_defs = exampleState_def exampleTool_def primaryAt_def specUtil_def spaceBar_def

lemmas handler_defs = mousedown_def mousedownBrush_def mousedownEraser_def mousedownRect_def
  mousemove_def mousemoveBrush_def mousemoveEraser_def mousemoveRect_def mouseleave_def
  updateLastCursorPos_def getIsPrimaryMouseDown_def isDrawableEntity_def
  getLastPointOfLastLineOfEntity_def getLastPointOfLine_def getObjectId_def setBuffer_def
  getCurrentFill_def getClip_def setTool_def toolChanged_def setToolBuffer_def toolBufferChanged_def
  onKeyDown_def onKeyUp_def

lemma mouseup_matching:
  assumes "selectedEntity s = Some ent" and "isDrawableEntity (entState ent)"
    and "buffer (adapter ent) = Some b" and "lastCursorPos s \<noteq> None" and "\<not> spaceKey s"
    and "adapterId (adapter ent) = entId (entState ent)"
    and "selected (toolState s) \<in> {ToolBrush, ToolEraser}"
    and "toolMatchesBuffer (selected (toolState s)) b"
  shows "getBuffer (mouseup s) = None
       \<and> persistedObjects (mouseup s) = persistedObjects s @ [setObjId (''brush_line'', nextId s) b]
       \<and> length (dispatched (mouseup s)) = Suc (length (dispatched s))
       \<and> nextId (mouseup s) = Suc (nextId s)"
  using assms
  by (cases "selected (toolState s)"; cases b) (auto simp: mouseup_defs)

lemma mouseup_mismatching:
  assumes "selectedEntity s = Some ent" and "isDrawableEntity (entState ent)"
    and "buffer (adapter ent) = Some b" and "lastCursorPos s \<noteq> None" and "\<not> spaceKey s"
    and "selected (toolState s) \<in> {ToolBrush, ToolEraser, ToolRect}"
    and "\<not> toolMatchesBuffer (selected (toolState s)) b"
  shows "getBuffer (mouseup s) = None
       \<and> persistedObjects (mouseup s) = persistedObjects s
       \<and> dispatched (mouseup s) = dispatched s"
  using assms
  by (cases "selected (toolState s)"; cases b) (auto simp: mouseup_defs)


lemma mouseup_other_tool:
  assumes "selected (toolState s) \<notin> {ToolBrush, ToolEraser, ToolRect}"
  shows "getBuffer (mouseup s) = getBuffer s
       \<and> persistedObjects (mouseup s) = persistedObjects s
       \<and> dispatched (mouseup s) = dispatched s"
  using assms
  by (auto simp: mouseup_defs split: option.splits)

lemma mouseup_guard:
  assumes "lastCursorPos s = None \<or> spaceKey s"
  shows "getBuffer (mouseup s) = getBuffer s
       \<and> persistedObjects (mouseup s) = persistedObjects s
       \<and> dispatched (mouseup s) = dispatched s"
  using assms
  by (auto simp: mouseup_def getBuffer_def persistedObjects_def Let_def split: option.splits)

text \<open>
  C1, as the code has it. On a release with a drawable entity selected, a buffer present,
  the last cursor position known and the space bar not held: when the selected tool is the
  brush and the buffer a brush line, or the tool the eraser and the buffer an eraser line,
  the buffer is committed (the buffer slot is emptied, exactly one command goes to the
  state API and exactly one object, the buffer under the identifier
  \<open>(''brush_line'', nextId)\<close>, is appended to the persisted list; that identifier differs
  from the buffer's own, which the supply issued earlier); when the selected tool is brush,
  eraser or rectangle and the buffer's tag is not the tool's, the buffer is discarded and
  nothing is added; when another tool is selected, the release leaves the buffer and the
  persisted list as they were. The rectangle tool meeting its own buffer is not part of
  this statement.
\<close>

theorem mouseup_commits_or_discards:
  assumes "selectedEntity s = Some ent" and "isDrawableEntity (entState ent)"
    and "buffer (adapter ent) = Some b" and "lastCursorPos s \<noteq> None" and "\<not> spaceKey s"
    and "adapterId (adapter ent) = entId (entState ent)" and "snd (objId b) < nextId s"
  shows "(selected (toolState s) \<in> {ToolBrush, ToolEraser}
          \<and> toolMatchesBuffer (selected (toolState s)) b \<longrightarrow>
            getBuffer (mouseup s) = None
          \<and> persistedObjects (mouseup s) = persistedObjects s @ [setObjId (''brush_line'', nextId s) b]
          \<and> (''brush_line'', nextId s) \<noteq> objId b
          \<and> length (dispatched (mouseup s)) = Suc (length (dispatched s)))
       \<and> (selected (toolState s) \<in> {ToolBrush, ToolEraser, ToolRect}
          \<and> \<not> toolMatchesBuffer (selected (toolState s)) b \<longrightarrow>
            getBuffer (mouseup s) = None
          \<and> persistedObjects (mouseup s) = persistedObjects s
          \<and> dispatched (mouseup s) = dispatched s)
       \<and> (selected (toolState s) \<notin> {ToolBrush, ToolEraser, ToolRect} \<longrightarrow>
            getBuffer (mouseup s) = Some b
          \<and> persistedObjects (mouseup s) = persistedObjects s
          \<and> dispatched (mouseup s) = dispatched s)"
proof -
  have fresh: "(''brush_line'', nextId s) \<noteq> objId b"
    using assms(7) by (cases "objId b") auto
  have buf: "getBuffer s = Some b"
    using assms(1,3) by (simp add: getBuffer_def)
  show ?thesis
    using mouseup_matching [OF assms(1-6)] mouseup_mismatching [OF assms(1-5)]
      mouseup_other_tool [of s] fresh buf
    by simp
qed

lemma pressed_brush_example:
  "mousedown specUtil (primaryAt 10 10) (exampleState ToolBrush \<lparr>cx = 0, cy = 0\<rparr>)
     = (exampleState ToolBrush \<lparr>cx = 0, cy = 0\<rparr>)
         \<lparr>isMouseDown := True,
          lastCursorPos := Some \<lparr>cx = 10, cy = 10\<rparr>,
          lastMouseDownPos := Some \<lparr>cx = 10, cy = 10\<rparr>,
          lastAddedPoint := Some \<lparr>cx = 10, cy = 10\<rparr>,
          selectedEntity := Some \<lparr>entState = \<lparr>entId = ''layer1'', entType = RasterLayer,
                                              entPosition = \<lparr>cx = 0, cy = 0\<rparr>, entObjects = []\<rparr>,
                                  adapter = \<lparr>adapterId = ''layer1'',
                                             buffer = Some (BrushLine (''brush_line'', 0) [10, 10] 50 exampleFill
                                               (Some \<lparr>rectX = 0, rectY = 0, rectWidth = 512, rectHeight = 512\<rparr>))\<rparr>\<rparr>,
          nextId := 1\<rparr>"
  by (simp add: example_defs handler_defs mouseup_defs)

lemma pressed_eraser_example:
  "mousedown specUtil (primaryAt 10 10) (exampleState ToolEraser \<lparr>cx = 0, cy = 0\<rparr>)
     = (exampleState ToolEraser \<lparr>cx = 0, cy = 0\<rparr>)
         \<lparr>isMouseDown := True,
          lastCursorPos := Some \<lparr>cx = 10, cy = 10\<rparr>,
          lastMouseDownPos := Some \<lparr>cx = 10, cy = 10\<rparr>,
          lastAddedPoint := Some \<lparr>cx = 10, cy = 10\<rparr>,
          selectedEntity := Some \<lparr>entState = \<lparr>entId = ''layer1'', entType = RasterLayer,
                                              entPosition = \<lparr>cx = 0, cy = 0\<rparr>, entObjects = []\<rparr>,
                                  adapter = \<lparr>adapterId = ''layer1'',
                                             buffer = Some (EraserLine (''eraser_line'', 0) [10, 10] 50
                                               (Some \<lparr>rectX = 0, rectY = 0, rectWidth = 512, rectHeight = 512\<rparr>))\<rparr>\<rparr>,
          nextId := 1\<rparr>"
  by (simp add: example_defs handler_defs mouseup_defs)

theorem mouseup_commits_or_discards_witness:
  "persistedObjects (mouseup (mousedown specUtil (primaryAt 10 10) (exampleState ToolBrush \<lparr>cx = 0, cy = 0\<rparr>)))
      = [BrushLine (''brush_line'', 1) [10, 10] 50 exampleFill
           (Some \<lparr>rectX = 0, rectY = 0, rectWidth = 512, rectHeight = 512\<rparr>)]
   \<and> getBuffer (mouseup (mousedown specUtil (primaryAt 10 10) (exampleState ToolBrush \<lparr>cx = 0, cy = 0\<rparr>))) = None
   \<and> length (dispatched (mouseup (mousedown specUtil (primaryAt 10 10) (exampleState ToolBrush \<lparr>cx = 0, cy = 0\<rparr>)))) = 1
   \<and> persistedObjects (mouseup (mousedown specUtil (primaryAt 10 10) (exampleState ToolEraser \<lparr>cx = 0, cy = 0\<rparr>)))
      = [EraserLine (''brush_line'', 1) [10, 10] 50
           (Some \<lparr>rectX = 0, rectY = 0, rectWidth = 512, rectHeight = 512\<rparr>)]
   \<and> getBuffer (mouseup (mousedown specUtil (primaryAt 10 10) (exampleState ToolEraser \<lparr>cx = 0, cy = 0\<rparr>))) = None
   \<and> length (dispatched (mouseup (mousedown specUtil (primaryAt 10 10) (exampleState ToolEraser \<lparr>cx = 0, cy = 0\<rparr>)))) = 1
   \<and> persistedObjects (mouseup (setTool ToolRect (mousedown specUtil (primaryAt 10 10) (exampleState ToolBrush \<lparr>cx = 0, cy = 0\<rparr>)))) = []
   \<and> getBuffer (mouseup (setTool ToolRect (mousedown specUtil (primaryAt 10 10) (exampleState ToolBrush \<lparr>cx = 0, cy = 0\<rparr>)))) = None
   \<and> dispatched (mouseup (setTool ToolRect (mousedown specUtil (primaryAt 10 10) (exampleState ToolBrush \<lparr>cx = 0, cy = 0\<rparr>)))) = []
   \<and> persistedObjects (mouseup (setTool ToolView (mousedown specUtil (primaryAt 10 10) (exampleState ToolBrush \<lparr>cx = 0, cy = 0\<rparr>)))) = []
   \<and> getBuffer (mouseup (setTool ToolView (mousedown specUtil (primaryAt 10 10) (exampleState ToolBrush \<lparr>cx = 0, cy = 0\<rparr>))))
      = Some (BrushLine (''brush_line'', 0) [10, 10] 50 exampleFill
               (Some \<lparr>rectX = 0, rectY = 0, rectWidth = 512, rectHeight = 512\<rparr>))
   \<and> dispatched (mouseup (setTool ToolView (mousedown specUtil (primaryAt 10 10) (exampleState ToolBrush \<lparr>cx = 0, cy = 0\<rparr>)))) = []"
proof -
  let ?b = "BrushLine (''brush_line'', 0) [10, 10] 50 exampleFill
              (Some \<lparr>rectX = 0, rectY = 0, rectWidth = 512, rectHeight = 512\<rparr>)"
  let ?c = "EraserLine (''eraser_line'', 0) [10, 10] 50
              (Some \<lparr>rectX = 0, rectY = 0, rectWidth = 512, rectHeight = 512\<rparr>)"
  let ?ent = "\<lparr>entState = \<lparr>entId = ''layer1'', entType = RasterLayer,
                            entPosition = \<lparr>cx = 0, cy = 0\<rparr>, entObjects = []\<rparr>,
                adapter = \<lparr>adapterId = ''layer1'', buffer = Some ?b\<rparr>\<rparr>"
  let ?ene = "\<lparr>entState = \<lparr>entId = ''layer1'', entType = RasterLayer,
                            entPosition = \<lparr>cx = 0, cy = 0\<rparr>, entObjects = []\<rparr>,
                adapter = \<lparr>adapterId = ''layer1'', buffer = Some ?c\<rparr>\<rparr>"
  let ?s = "mousedown specUtil (primaryAt 10 10) (exampleState ToolBrush \<lparr>cx = 0, cy = 0\<rparr>)"
  let ?e = "mousedown specUtil (primaryAt 10 10) (exampleState ToolEraser \<lparr>cx = 0, cy = 0\<rparr>)"
  let ?t = "setTool ToolRect ?s"
  let ?v = "setTool ToolView ?s"
  have s: "selectedEntity ?s = Some ?ent" "lastCursorPos ?s \<noteq> None" "\<not> spaceKey ?s"
    "nextId ?s = 1" "selected (toolState ?s) = ToolBrush" "persistedObjects ?s = []" "dispatched ?s = []"
    unfolding pressed_brush_example
    by (simp_all add: exampleState_def exampleTool_def persistedObjects_def)
  have e: "selectedEntity ?e = Some ?ene" "lastCursorPos ?e \<noteq> None" "\<not> spaceKey ?e"
    "nextId ?e = 1" "selected (toolState ?e) = ToolEraser" "persistedObjects ?e = []" "dispatched ?e = []"
    unfolding pressed_eraser_example
    by (simp_all add: exampleState_def exampleTool_def persistedObjects_def)
  have t: "selectedEntity ?t = Some ?ent" "lastCursorPos ?t \<noteq> None" "\<not> spaceKey ?t"
    "nextId ?t = 1" "selected (toolState ?t) = ToolRect" "persistedObjects ?t = []" "dispatched ?t = []"
    unfolding pressed_brush_example
    by (simp_all add: exampleState_def exampleTool_def persistedObjects_def setTool_def toolChanged_def)
  have v: "selectedEntity ?v = Some ?ent" "lastCursorPos ?v \<noteq> None" "\<not> spaceKey ?v"
    "nextId ?v = 1" "selected (toolState ?v) = ToolView" "persistedObjects ?v = []" "dispatched ?v = []"
    unfolding pressed_brush_example
    by (simp_all add: exampleState_def exampleTool_def persistedObjects_def setTool_def toolChanged_def)
  have d: "isDrawableEntity (entState ?ent)" "buffer (adapter ?ent) = Some ?b"
    "adapterId (adapter ?ent) = entId (entState ?ent)"
    "isDrawableEntity (entState ?ene)" "buffer (adapter ?ene) = Some ?c"
    "adapterId (adapter ?ene) = entId (entState ?ene)"
    by (simp_all add: isDrawableEntity_def)
  have i: "snd (objId ?b) < nextId ?s" "snd (objId ?c) < nextId ?e"
    "snd (objId ?b) < nextId ?t" "snd (objId ?b) < nextId ?v"
    by (simp_all add: s e t v)
  show ?thesis
    using mouseup_commits_or_discards [OF s(1) d(1) d(2) s(2) s(3) d(3) i(1)]
      mouseup_commits_or_discards [OF e(1) d(4) d(5) e(2) e(3) d(6) i(2)]
      mouseup_commits_or_discards [OF t(1) d(1) d(2) t(2) t(3) d(3) i(3)]
      mouseup_commits_or_discards [OF v(1) d(1) d(2) v(2) v(3) d(3) i(4)]
      s(4-7) e(4-7) t(4-7) v(4-7)
    by simp
qed

text \<open>
  C1 as stated fails: it has every mismatching buffer discarded on release. A press with
  the brush opens a brush line; the move tool is then selected; the release finds a
  buffer that does not match the tool and leaves it in place.
\<close>

theorem mouseup_after_tool_change_keeps_buffer:
  "selected (toolState (setTool ToolMove (mousedown specUtil (primaryAt 10 10) (exampleState ToolBrush \<lparr>cx = 0, cy = 0\<rparr>)))) = ToolMove
   \<and> getBuffer (setTool ToolMove (mousedown specUtil (primaryAt 10 10) (exampleState ToolBrush \<lparr>cx = 0, cy = 0\<rparr>)))
       = Some (BrushLine (''brush_line'', 0) [10, 10] 50 exampleFill
                (Some \<lparr>rectX = 0, rectY = 0, rectWidth = 512, rectHeight = 512\<rparr>))
   \<and> getBuffer (mouseup (setTool ToolMove (mousedown specUtil (primaryAt 10 10) (exampleState ToolBrush \<lparr>cx = 0, cy = 0\<rparr>))))
       = Some (BrushLine (''brush_line'', 0) [10, 10] 50 exampleFill
                (Some \<lparr>rectX = 0, rectY = 0, rectWidth = 512, rectHeight = 512\<rparr>))"
  by (simp add: example_defs handler_defs mouseup_defs)

text \<open>
  The same holds when the space bar goes down during the drag: the release is skipped by
  the handler's guard (no cursor position, space held).
\<close>

lemma mouseup_with_space_held_keeps_buffer:
  "getBuffer (mouseup (onKeyDown spaceBar (mousedown specUtil (primaryAt 10 10) (exampleState ToolBrush \<lparr>cx = 0, cy = 0\<rparr>))))
       = Some (BrushLine (''brush_line'', 0) [10, 10] 50 exampleFill
                (Some \<lparr>rectX = 0, rectY = 0, rectWidth = 512, rectHeight = 512\<rparr>))"
  by (simp add: example_defs handler_defs mouseup_defs)

text \<open>
  The rectangle tool meeting its own buffer: a press and a drag to (30, 40) leave a
  rectangle 20 by 30 in the buffer; the release empties the buffer and nothing reaches the
  state API or the persisted list.
\<close>

lemma mouseup_rect_drag_example:
  "getBuffer (mousemove specUtil (primaryAt 30 40)
       (mousedown specUtil (primaryAt 10 10) (exampleState ToolRect \<lparr>cx = 0, cy = 0\<rparr>)))
     = Some (RectObj (''rect'', 0) \<lparr>rectX = 10, rectY = 10, rectWidth = 20, rectHeight = 30\<rparr> exampleFill)
   \<and> getBuffer (mouseup (mousemove specUtil (primaryAt 30 40)
       (mousedown specUtil (primaryAt 10 10) (exampleState ToolRect \<lparr>cx = 0, cy = 0\<rparr>)))) = None
   \<and> persistedObjects (mouseup (mousemove specUtil (primaryAt 30 40)
       (mousedown specUtil (primaryAt 10 10) (exampleState ToolRect \<lparr>cx = 0, cy = 0\<rparr>)))) = []
   \<and> dispatched (mouseup (mousemove specUtil (primaryAt 30 40)
       (mousedown specUtil (primaryAt 10 10) (exampleState ToolRect \<lparr>cx = 0, cy = 0\<rparr>)))) = []"
  by (simp add: example_defs handler_defs mouseup_defs)

subsection \<open>Distances\<close>

lemma hypot_less_iff: "hypot a b < m \<longleftrightarrow> 0 < m \<and> a * a + b * b < m * m"
proof (cases "0 < m")
  case True
  then have m: "sqrt (m * m) = m" by simp
  have "sqrt (a * a + b * b) < sqrt (m * m) \<longleftrightarrow> a * a + b * b < m * m"
    by (rule real_sqrt_less_iff)
  then show ?thesis using True m by (simp add: hypot_def)
next
  case False
  have "0 \<le> sqrt (a * a + b * b)" by simp
  then have "\<not> sqrt (a * a + b * b) < m" using False by linarith
  then show ?thesis using False by (simp add: hypot_def)
qed

lemma hypot_le_iff: "d \<le> hypot a b \<longleftrightarrow> d \<le> 0 \<or> d * d \<le> a * a + b * b"
  using hypot_less_iff [of a b d] by (auto simp: not_less [symmetric])

subsection \<open>A rectangle pressed and released in place\<close>






subsection \<open>Points appended during a drag\<close>

lemma getLastPointOfLine_Some:
  assumes "getLastPointOfLine ps = Some lp"
  shows "\<exists>pre. ps = pre @ [cx lp, cy lp]"
proof -
  from assms have len: "2 \<le> length ps"
    by (simp add: getLastPointOfLine_def split: if_splits)
  then obtain qs b where ps: "ps = qs @ [b]"
    by (cases ps rule: rev_cases) auto
  with len obtain pre a where qs: "qs = pre @ [a]"
    by (cases qs rule: rev_cases) auto
  have "getLastPointOfLine ps = Some \<lparr>cx = a, cy = b\<rparr>"
    by (simp add: getLastPointOfLine_def ps qs nth_append)
  with assms have "cx lp = a" "cy lp = b" by auto
  then show ?thesis using ps qs by simp
qed

lemma noRepeatedPoint_snoc:
  assumes "even (length pre)" and "noRepeatedPoint (pre @ [a, b])" and "a \<noteq> a' \<or> b \<noteq> b'"
  shows "noRepeatedPoint (pre @ [a, b, a', b'])"
  using assms
proof (induction pre rule: induct_list012)
  case 1
  then show ?case by simp
next
  case (2 x)
  then show ?case by simp
next
  case (3 x y zs)
  have ev: "even (length zs)" using 3 by simp
  show ?case
  proof (cases zs)
    case Nil
    then show ?thesis using 3 by simp
  next
    case (Cons z zs')
    then obtain z' zs'' where zs': "zs' = z' # zs''"
      using ev by (cases zs') auto
    have "noRepeatedPoint (zs @ [a, b])"
      using 3(4) Cons zs' by simp
    then have "noRepeatedPoint (zs @ [a, b, a', b'])"
      using 3(1) ev 3(5) by simp
    then show ?thesis using 3(4) Cons zs' by simp
  qed
qed

lemma noRepeatedPoint_append_point:
  assumes "even (length ps)" and "noRepeatedPoint ps" and "getLastPointOfLine ps = Some lp"
    and "cx lp \<noteq> a \<or> cy lp \<noteq> b"
  shows "noRepeatedPoint (ps @ [a, b])"
proof -
  obtain pre where ps: "ps = pre @ [cx lp, cy lp]"
    using getLastPointOfLine_Some [OF assms(3)] by blast
  have "even (length pre)" using assms(1) ps by simp
  then have "noRepeatedPoint (pre @ [cx lp, cy lp, a, b])"
    using assms(2,4) ps by (intro noRepeatedPoint_snoc) simp_all
  then show ?thesis using ps by simp
qed

lemma getBuffer_setBuffer [simp]:
  "getBuffer (setBuffer obj s) = (if selectedEntity s = None then None else Some obj)"
  by (simp add: getBuffer_def setBuffer_def split: option.splits)

lemma getBuffer_clearBuffer [simp]: "getBuffer (clearBuffer s) = None"
  by (simp add: getBuffer_def clearBuffer_def split: option.splits)

lemma getBuffer_commitBuffer [simp]: "getBuffer (commitBuffer s) = None"
  by (cases "selectedEntity s")
     (auto simp: getBuffer_def commitBuffer_def finalizeDrawingBuffer_def getPrefixedId_def dispatch_def
       Let_def split: option.splits CanvasObject.splits)

lemma getBuffer_fields [simp]:
  "getBuffer (s\<lparr>lastAddedPoint := pt\<rparr>) = getBuffer s"
  "getBuffer (s\<lparr>nextId := n\<rparr>) = getBuffer s"
  "getBuffer (s\<lparr>lastCursorPos := lc\<rparr>) = getBuffer s"
  "getBuffer (s\<lparr>lastMouseDownPos := lm\<rparr>) = getBuffer s"
  "getBuffer (s\<lparr>colorUnderCursor := cu\<rparr>) = getBuffer s"
  "getBuffer (s\<lparr>isMouseDown := md\<rparr>) = getBuffer s"
  by (simp_all add: getBuffer_def)

lemma selectedEntity_None_commitBuffer:
  "selectedEntity s = None \<Longrightarrow> commitBuffer s = s"
  by (simp add: commitBuffer_def)

lemma strokeWellFormed_getBuffer:
  "getBuffer s' = getBuffer s \<Longrightarrow> strokeWellFormed s' = strokeWellFormed s"
  by (simp add: strokeWellFormed_def bufferPoints_def)

lemma strokeWellFormed_None: "getBuffer s = None \<Longrightarrow> strokeWellFormed s"
  by (simp add: strokeWellFormed_def bufferPoints_def)

lemma strokeWellFormed_one_point:
  "getBuffer s = Some (BrushLine i [a, b] w c cl) \<Longrightarrow> strokeWellFormed s"
  "getBuffer s = Some (EraserLine i [a, b] w cl) \<Longrightarrow> strokeWellFormed s"
  "getBuffer s = Some (RectShape i r c) \<Longrightarrow> strokeWellFormed s"
  "getBuffer s = Some (RectObj i r c) \<Longrightarrow> strokeWellFormed s"
  by (simp_all add: strokeWellFormed_def bufferPoints_def)

lemma mousemoveBrush_wellFormed:
  assumes "strokeWellFormed s"
  shows "strokeWellFormed (mousemoveBrush u p ts ent s)"
proof (cases "getBuffer s")
  case None
  then show ?thesis
    by (cases "selectedEntity s")
       (auto simp: mousemoveBrush_def Let_def getObjectId_def split: prod.splits
         intro: strokeWellFormed_None strokeWellFormed_one_point)
next
  case (Some drawingBuffer)
  then have sel: "selectedEntity s \<noteq> None"
    by (auto simp: getBuffer_def split: option.splits)
  show ?thesis
  proof (cases drawingBuffer)
    case (BrushLine i ps w c cl)
    have wf: "even (length ps)" "noRepeatedPoint ps"
      using assms Some BrushLine by (simp_all add: strokeWellFormed_def bufferPoints_def)
    show ?thesis
    proof (cases "getLastPointOfLine ps")
      case None
      then show ?thesis using assms Some BrushLine by (simp add: mousemoveBrush_def)
    next
      case lp: (Some lp)
      show ?thesis
      proof (cases "getNextPoint u p ts (Some lp)")
        case None
        then show ?thesis using assms Some BrushLine lp by (simp add: mousemoveBrush_def)
      next
        case np: (Some np)
        let ?q = "alignCoordForTool u (offsetCoord u np (entPosition (entState ent))) (brushWidth ts)"
        show ?thesis
        proof (cases "cx lp \<noteq> cx ?q \<or> cy lp \<noteq> cy ?q")
          case True
          then have "noRepeatedPoint (ps @ [cx ?q, cy ?q])"
            using wf lp by (intro noRepeatedPoint_append_point) simp_all
          then show ?thesis
            using Some BrushLine lp np True wf sel
            by (simp add: mousemoveBrush_def Let_def strokeWellFormed_def bufferPoints_def)
        next
          case False
          then show ?thesis using assms Some BrushLine lp np
            by (simp add: mousemoveBrush_def Let_def)
        qed
      qed
    qed
  qed (use Some in \<open>simp_all add: mousemoveBrush_def strokeWellFormed_None\<close>)
qed

lemma mousemoveEraser_wellFormed:
  assumes "strokeWellFormed s"
  shows "strokeWellFormed (mousemoveEraser u p ts ent s)"
proof (cases "getBuffer s")
  case None
  then show ?thesis
    by (cases "selectedEntity s")
       (auto simp: mousemoveEraser_def Let_def getObjectId_def split: prod.splits
         intro: strokeWellFormed_None strokeWellFormed_one_point)
next
  case (Some drawingBuffer)
  then have sel: "selectedEntity s \<noteq> None"
    by (auto simp: getBuffer_def split: option.splits)
  show ?thesis
  proof (cases drawingBuffer)
    case (EraserLine i ps w cl)
    have wf: "even (length ps)" "noRepeatedPoint ps"
      using assms Some EraserLine by (simp_all add: strokeWellFormed_def bufferPoints_def)
    show ?thesis
    proof (cases "getLastPointOfLine ps")
      case None
      then show ?thesis using assms Some EraserLine by (simp add: mousemoveEraser_def)
    next
      case lp: (Some lp)
      show ?thesis
      proof (cases "getNextPoint u p ts (Some lp)")
        case None
        then show ?thesis using assms Some EraserLine lp by (simp add: mousemoveEraser_def)
      next
        case np: (Some np)
        let ?q = "alignCoordForTool u (offsetCoord u np (entPosition (entState ent))) (eraserWidth ts)"
        show ?thesis
        proof (cases "cx lp \<noteq> cx ?q \<or> cy lp \<noteq> cy ?q")
          case True
          then have "noRepeatedPoint (ps @ [cx ?q, cy ?q])"
            using wf lp by (intro noRepeatedPoint_append_point) simp_all
          then show ?thesis
            using Some EraserLine lp np True wf sel
            by (simp add: mousemoveEraser_def Let_def strokeWellFormed_def bufferPoints_def)
        next
          case False
          then show ?thesis using assms Some EraserLine lp np
            by (simp add: mousemoveEraser_def Let_def)
        qed
      qed
    qed
  qed (use Some in \<open>simp_all add: mousemoveEraser_def strokeWellFormed_None\<close>)
qed

lemma mousemoveRect_wellFormed:
  "strokeWellFormed (mousemoveRect u p ent s)"
proof (cases "getBuffer s")
  case None
  then show ?thesis by (simp add: mousemoveRect_def strokeWellFormed_None)
next
  case (Some drawingBuffer)
  then have sel: "selectedEntity s \<noteq> None"
    by (auto simp: getBuffer_def split: option.splits)
  show ?thesis
    using Some sel
    by (cases drawingBuffer)
       (auto simp: mousemoveRect_def Let_def intro: strokeWellFormed_None strokeWellFormed_one_point)
qed


lemma mousemove_unfold:
  "mousemove u e s =
     (case scaledCursor e of
        None \<Rightarrow> (if selected (toolState s) = ToolEyeDropper
                 then s\<lparr>colorUnderCursor := getColorUnderCursor e\<rparr> else s)
      | Some p \<Rightarrow>
          (let s2 = (if selected (toolState s) = ToolEyeDropper
                     then s\<lparr>lastCursorPos := Some p, colorUnderCursor := getColorUnderCursor e\<rparr>
                     else s\<lparr>lastCursorPos := Some p\<rparr>)
           in case selectedEntity s of
                None \<Rightarrow> s2
              | Some ent \<Rightarrow>
                  if isDrawableEntity (entState ent) \<and> \<not> spaceKey s \<and> getIsPrimaryMouseDown e
                  then (case selected (toolState s) of
                          ToolBrush \<Rightarrow> mousemoveBrush u p (toolState s) ent s2
                        | ToolEraser \<Rightarrow> mousemoveEraser u p (toolState s) ent s2
                        | ToolRect \<Rightarrow> mousemoveRect u p ent s2
                        | _ \<Rightarrow> s2)
                  else s2))"
proof (cases "scaledCursor e")
  case None
  then show ?thesis
    by (simp add: mousemove_def updateLastCursorPos_def)
next
  case (Some p)
  show ?thesis
  proof (cases "selectedEntity s")
    case None
    then show ?thesis using Some
      by (simp add: mousemove_def updateLastCursorPos_def)
  next
    case ent: (Some ent)
    show ?thesis
      using Some ent
      by (cases "selected (toolState s)") (simp_all add: mousemove_def updateLastCursorPos_def Let_def)
  qed
qed



lemma mousemove_branch:
  assumes "scaledCursor e = Some p" and "selectedEntity s = Some ent"
    and "isDrawableEntity (entState ent) \<and> \<not> spaceKey s \<and> getIsPrimaryMouseDown e"
  shows "selected (toolState s) = ToolBrush \<Longrightarrow>
           mousemove u e s = mousemoveBrush u p (toolState s) ent (s\<lparr>lastCursorPos := Some p\<rparr>)"
    and "selected (toolState s) = ToolEraser \<Longrightarrow>
           mousemove u e s = mousemoveEraser u p (toolState s) ent (s\<lparr>lastCursorPos := Some p\<rparr>)"
    and "selected (toolState s) = ToolRect \<Longrightarrow>
           mousemove u e s = mousemoveRect u p ent (s\<lparr>lastCursorPos := Some p\<rparr>)"
  using assms by (simp_all add: mousemove_unfold Let_def)

lemma mousemove_no_branch:
  assumes "\<not> (\<exists>p ent. scaledCursor e = Some p \<and> selectedEntity s = Some ent
    \<and> (isDrawableEntity (entState ent) \<and> \<not> spaceKey s \<and> getIsPrimaryMouseDown e)
    \<and> selected (toolState s) \<in> {ToolBrush, ToolEraser, ToolRect})"
  shows "getBuffer (mousemove u e s) = getBuffer s"
proof (cases "scaledCursor e")
  case None
  then show ?thesis by (simp add: mousemove_unfold)
next
  case (Some p)
  show ?thesis
  proof (cases "selectedEntity s")
    case None
    then show ?thesis using Some by (simp add: mousemove_unfold)
  next
    case ent: (Some ent)
    have n: "\<not> ((isDrawableEntity (entState ent) \<and> \<not> spaceKey s \<and> getIsPrimaryMouseDown e)
               \<and> selected (toolState s) \<in> {ToolBrush, ToolEraser, ToolRect})"
      using assms Some ent by blast
    show ?thesis
    proof (cases "isDrawableEntity (entState ent) \<and> \<not> spaceKey s \<and> getIsPrimaryMouseDown e")
      case True
      then have "selected (toolState s) \<notin> {ToolBrush, ToolEraser, ToolRect}"
        using n by blast
      then show ?thesis
        using Some ent True
        by (cases "selected (toolState s)") (simp_all add: mousemove_unfold Let_def)
    next
      case False
      then show ?thesis
        using Some ent
        by (cases "selected (toolState s)") (auto simp: mousemove_unfold Let_def)
    qed
  qed
qed

text \<open>
  A buffer with an even number of coordinates and no point stored twice in a row keeps
  both under every pointer move.
\<close>

lemma mousemove_wellFormed:
  assumes "strokeWellFormed s"
  shows "strokeWellFormed (mousemove u e s)"
proof (cases "\<exists>p ent. scaledCursor e = Some p \<and> selectedEntity s = Some ent
    \<and> (isDrawableEntity (entState ent) \<and> \<not> spaceKey s \<and> getIsPrimaryMouseDown e)
    \<and> selected (toolState s) \<in> {ToolBrush, ToolEraser, ToolRect}")
  case False
  then have "getBuffer (mousemove u e s) = getBuffer s"
    by (rule mousemove_no_branch)
  then show ?thesis using assms by (simp add: strokeWellFormed_def bufferPoints_def)
next
  case True
  then obtain p ent where h: "scaledCursor e = Some p" "selectedEntity s = Some ent"
    "isDrawableEntity (entState ent) \<and> \<not> spaceKey s \<and> getIsPrimaryMouseDown e"
    and t: "selected (toolState s) \<in> {ToolBrush, ToolEraser, ToolRect}"
    by blast
  have wf: "strokeWellFormed (s\<lparr>lastCursorPos := Some p\<rparr>)"
    using assms by (simp add: strokeWellFormed_def bufferPoints_def)
  from t consider "selected (toolState s) = ToolBrush" | "selected (toolState s) = ToolEraser"
    | "selected (toolState s) = ToolRect" by auto
  then show ?thesis
  proof cases
    case 1
    show ?thesis
      unfolding mousemove_branch(1) [OF h 1] using wf by (rule mousemoveBrush_wellFormed)
  next
    case 2
    show ?thesis
      unfolding mousemove_branch(2) [OF h 2] using wf by (rule mousemoveEraser_wellFormed)
  next
    case 3
    show ?thesis
      unfolding mousemove_branch(3) [OF h 3] by (rule mousemoveRect_wellFormed)
  qed
qed

lemma fold_mousemove_wellFormed:
  "strokeWellFormed s \<Longrightarrow> strokeWellFormed (fold (mousemove u) es s)"
  by (induction es arbitrary: s) (simp_all add: mousemove_wellFormed)


lemma getNextPoint_Some:
  "getNextPoint u p ts (Some lp) = Some np \<longleftrightarrow>
     np = p \<and> activeWidth ts * BRUSH_SPACING_TARGET_SCALE u \<le> hypot (cx lp - cx p) (cy lp - cy p)"
  by (auto simp: getNextPoint_def activeWidth_def Let_def)

lemma bufferPoints_fields [simp]:
  "bufferPoints (s\<lparr>lastCursorPos := lc\<rparr>) = bufferPoints s"
  "bufferPoints (s\<lparr>lastAddedPoint := pt\<rparr>) = bufferPoints s"
  by (simp_all add: bufferPoints_def)

lemma mousemoveBrush_points:
  assumes "bufferPoints s = Some ps" and "bufferPoints (mousemoveBrush u p ts ent s) = Some ps'"
    and "ps' \<noteq> ps" and "selected ts = ToolBrush"
  shows "\<exists>lp. getLastPointOfLine ps = Some lp
      \<and> activeWidth ts * BRUSH_SPACING_TARGET_SCALE u \<le> hypot (cx lp - cx p) (cy lp - cy p)
      \<and> ps' = ps @ [cx (alignCoordForTool u (offsetCoord u p (entPosition (entState ent))) (activeWidth ts)),
                     cy (alignCoordForTool u (offsetCoord u p (entPosition (entState ent))) (activeWidth ts))]
      \<and> (cx (alignCoordForTool u (offsetCoord u p (entPosition (entState ent))) (activeWidth ts)),
          cy (alignCoordForTool u (offsetCoord u p (entPosition (entState ent))) (activeWidth ts)))
          \<noteq> (cx lp, cy lp)"
proof -
  from assms(1) obtain b where b: "getBuffer s = Some b" "linePoints b = Some ps"
    by (auto simp: bufferPoints_def split: option.splits)
  then have sel: "selectedEntity s \<noteq> None"
    by (auto simp: getBuffer_def split: option.splits)
  have w: "activeWidth ts = brushWidth ts"
    using assms(4) by (simp add: activeWidth_def)
  show ?thesis
  proof (cases b)
    case (BrushLine i qs w' c cl)
    then have qs: "qs = ps" using b by simp
    show ?thesis
    proof (cases "getLastPointOfLine ps")
      case None
      then show ?thesis
        using assms(1-3) b BrushLine qs by (simp add: mousemoveBrush_def bufferPoints_def)
    next
      case lp: (Some lp)
      show ?thesis
      proof (cases "getNextPoint u p ts (Some lp)")
        case None
        then show ?thesis
          using assms(1-3) b BrushLine qs lp by (simp add: mousemoveBrush_def bufferPoints_def)
      next
        case (Some np)
        then have np: "np = p"
          and far: "activeWidth ts * BRUSH_SPACING_TARGET_SCALE u \<le> hypot (cx lp - cx p) (cy lp - cy p)"
          by (simp_all add: getNextPoint_Some)
        show ?thesis
          using assms(1-3) b BrushLine qs lp Some np far sel w
          by (auto simp: mousemoveBrush_def bufferPoints_def Let_def split: if_splits)
      qed
    qed
  next
    case (EraserLine i qs w' cl)
    then show ?thesis using assms(2) b by (simp add: mousemoveBrush_def bufferPoints_def)
  next
    case (RectShape i r c)
    then show ?thesis using b by simp
  next
    case (ImageObject i nm w' h)
    then show ?thesis using b by simp
  next
    case (RectObj i r c)
    then show ?thesis using b by simp
  qed
qed


lemma mousemoveEraser_points:
  assumes "bufferPoints s = Some ps" and "bufferPoints (mousemoveEraser u p ts ent s) = Some ps'"
    and "ps' \<noteq> ps" and "selected ts = ToolEraser"
  shows "\<exists>lp. getLastPointOfLine ps = Some lp
      \<and> activeWidth ts * BRUSH_SPACING_TARGET_SCALE u \<le> hypot (cx lp - cx p) (cy lp - cy p)
      \<and> ps' = ps @ [cx (alignCoordForTool u (offsetCoord u p (entPosition (entState ent))) (activeWidth ts)),
                     cy (alignCoordForTool u (offsetCoord u p (entPosition (entState ent))) (activeWidth ts))]
      \<and> (cx (alignCoordForTool u (offsetCoord u p (entPosition (entState ent))) (activeWidth ts)),
          cy (alignCoordForTool u (offsetCoord u p (entPosition (entState ent))) (activeWidth ts)))
          \<noteq> (cx lp, cy lp)"
proof -
  from assms(1) obtain b where b: "getBuffer s = Some b" "linePoints b = Some ps"
    by (auto simp: bufferPoints_def split: option.splits)
  then have sel: "selectedEntity s \<noteq> None"
    by (auto simp: getBuffer_def split: option.splits)
  have w: "activeWidth ts = eraserWidth ts"
    using assms(4) by (simp add: activeWidth_def)
  show ?thesis
  proof (cases b)
    case (EraserLine i qs w' cl)
    then have qs: "qs = ps" using b by simp
    show ?thesis
    proof (cases "getLastPointOfLine ps")
      case None
      then show ?thesis
        using assms(1-3) b EraserLine qs by (simp add: mousemoveEraser_def bufferPoints_def)
    next
      case lp: (Some lp)
      show ?thesis
      proof (cases "getNextPoint u p ts (Some lp)")
        case None
        then show ?thesis
          using assms(1-3) b EraserLine qs lp by (simp add: mousemoveEraser_def bufferPoints_def)
      next
        case (Some np)
        then have np: "np = p"
          and far: "activeWidth ts * BRUSH_SPACING_TARGET_SCALE u \<le> hypot (cx lp - cx p) (cy lp - cy p)"
          by (simp_all add: getNextPoint_Some)
        show ?thesis
          using assms(1-3) b EraserLine qs lp Some np far sel w
          by (auto simp: mousemoveEraser_def bufferPoints_def Let_def split: if_splits)
      qed
    qed
  next
    case (BrushLine i qs w' c cl)
    then show ?thesis using assms(2) b by (simp add: mousemoveEraser_def bufferPoints_def)
  next
    case (RectShape i r c)
    then show ?thesis using b by simp
  next
    case (ImageObject i nm w' h)
    then show ?thesis using b by simp
  next
    case (RectObj i r c)
    then show ?thesis using b by simp
  qed
qed


lemma mousemoveRect_points:
  assumes "bufferPoints s = Some ps"
  shows "bufferPoints (mousemoveRect u p ent s) = None"
proof -
  from assms obtain b where b: "getBuffer s = Some b" "linePoints b = Some ps"
    by (auto simp: bufferPoints_def split: option.splits)
  then show ?thesis
    by (cases b) (simp_all add: mousemoveRect_def bufferPoints_def)
qed

lemma mousemove_points:
  assumes "bufferPoints s = Some ps" and "bufferPoints (mousemove u e s) = Some ps'" and "ps' \<noteq> ps"
  shows "\<exists>ent p lp. selectedEntity s = Some ent \<and> scaledCursor e = Some p
      \<and> getLastPointOfLine ps = Some lp
      \<and> activeWidth (toolState s) * BRUSH_SPACING_TARGET_SCALE u \<le> hypot (cx lp - cx p) (cy lp - cy p)
      \<and> ps' = ps @ [cx (alignCoordForTool u (offsetCoord u p (entPosition (entState ent))) (activeWidth (toolState s))),
                     cy (alignCoordForTool u (offsetCoord u p (entPosition (entState ent))) (activeWidth (toolState s)))]
      \<and> (cx (alignCoordForTool u (offsetCoord u p (entPosition (entState ent))) (activeWidth (toolState s))),
          cy (alignCoordForTool u (offsetCoord u p (entPosition (entState ent))) (activeWidth (toolState s))))
          \<noteq> (cx lp, cy lp)"
proof (cases "\<exists>p ent. scaledCursor e = Some p \<and> selectedEntity s = Some ent
    \<and> (isDrawableEntity (entState ent) \<and> \<not> spaceKey s \<and> getIsPrimaryMouseDown e)
    \<and> selected (toolState s) \<in> {ToolBrush, ToolEraser, ToolRect}")
  case False
  then have "getBuffer (mousemove u e s) = getBuffer s"
    by (rule mousemove_no_branch)
  then have "bufferPoints (mousemove u e s) = bufferPoints s"
    by (simp add: bufferPoints_def)
  with assms show ?thesis by simp
next
  case True
  then obtain p ent where h: "scaledCursor e = Some p" "selectedEntity s = Some ent"
    "isDrawableEntity (entState ent) \<and> \<not> spaceKey s \<and> getIsPrimaryMouseDown e"
    and t: "selected (toolState s) \<in> {ToolBrush, ToolEraser, ToolRect}"
    by blast
  let ?s = "s\<lparr>lastCursorPos := Some p\<rparr>"
  have bp: "bufferPoints ?s = Some ps"
    using assms(1) by simp
  from t consider "selected (toolState s) = ToolBrush" | "selected (toolState s) = ToolEraser"
    | "selected (toolState s) = ToolRect" by auto
  then show ?thesis
  proof cases
    case 1
    have "bufferPoints (mousemoveBrush u p (toolState s) ent ?s) = Some ps'"
      using assms(2) unfolding mousemove_branch(1) [OF h 1] .
    from mousemoveBrush_points [OF bp this assms(3) 1] show ?thesis
      using h by blast
  next
    case 2
    have "bufferPoints (mousemoveEraser u p (toolState s) ent ?s) = Some ps'"
      using assms(2) unfolding mousemove_branch(2) [OF h 2] .
    from mousemoveEraser_points [OF bp this assms(3) 2] show ?thesis
      using h by blast
  next
    case 3
    have "bufferPoints (mousemoveRect u p ent ?s) = Some ps'"
      using assms(2) unfolding mousemove_branch(3) [OF h 3] .
    then show ?thesis using mousemoveRect_points [OF bp, of u p ent] by simp
  qed
qed


text \<open>
  C2, as the code has it. After every sequence of pointer moves, whatever the state the
  sequence started in, each point that the next move appends to a brush or eraser buffer
  was accepted by the spacing test (the cursor position handed to \<^verbatim>\<open>getNextPoint\<close> is at
  least the stroke width times the spacing scale away from the last stored point) and
  differs from the last stored point (a candidate whose offset and aligned position equals
  the last stored point is not appended). What is stored is the offset and aligned point,
  to which the distance bound does not carry over; the points a press stores and the final
  point appended when the pointer leaves the stage pass neither test.
\<close>

theorem mousemove_appends_filtered_points:
  "bufferPoints (fold (mousemove u) es s) = Some ps
   \<and> bufferPoints (mousemove u e (fold (mousemove u) es s)) = Some ps' \<and> ps' \<noteq> ps \<longrightarrow>
     (\<exists>ent p lp. selectedEntity (fold (mousemove u) es s) = Some ent \<and> scaledCursor e = Some p
        \<and> getLastPointOfLine ps = Some lp
        \<and> activeWidth (toolState (fold (mousemove u) es s)) * BRUSH_SPACING_TARGET_SCALE u
            \<le> hypot (cx lp - cx p) (cy lp - cy p)
        \<and> ps' = ps @ [cx (alignCoordForTool u (offsetCoord u p (entPosition (entState ent)))
                              (activeWidth (toolState (fold (mousemove u) es s)))),
                       cy (alignCoordForTool u (offsetCoord u p (entPosition (entState ent)))
                              (activeWidth (toolState (fold (mousemove u) es s))))]
        \<and> (cx (alignCoordForTool u (offsetCoord u p (entPosition (entState ent)))
                  (activeWidth (toolState (fold (mousemove u) es s)))),
            cy (alignCoordForTool u (offsetCoord u p (entPosition (entState ent)))
                  (activeWidth (toolState (fold (mousemove u) es s)))))
            \<noteq> (cx lp, cy lp))"
  using mousemove_points [of "fold (mousemove u) es s" ps u e ps']
  by blast

lemma moved_brush_example:
  "bufferPoints (mousemove specUtil (primaryAt 0 10)
     (mousedown specUtil (primaryAt 10 10) (exampleState ToolBrush \<lparr>cx = 0, cy = 0\<rparr>)))
   = Some [10, 10, 0, 10]"
  by (simp add: example_defs handler_defs mouseup_defs getNextPoint_def hypot_less_iff bufferPoints_def)

lemma moved_twice_brush_example:
  "bufferPoints (mousemove specUtil (primaryAt 20 10) (mousemove specUtil (primaryAt 0 10)
     (mousedown specUtil (primaryAt 10 10) (exampleState ToolBrush \<lparr>cx = 0, cy = 0\<rparr>))))
   = Some [10, 10, 0, 10, 20, 10]"
  by (simp add: example_defs handler_defs mouseup_defs getNextPoint_def hypot_less_iff bufferPoints_def)

theorem mousemove_appends_filtered_points_witness:
  "bufferPoints (fold (mousemove specUtil) [primaryAt 0 10]
        (mousedown specUtil (primaryAt 10 10) (exampleState ToolBrush \<lparr>cx = 0, cy = 0\<rparr>)))
       = Some [10, 10, 0, 10]
   \<and> bufferPoints (mousemove specUtil (primaryAt 20 10) (fold (mousemove specUtil) [primaryAt 0 10]
        (mousedown specUtil (primaryAt 10 10) (exampleState ToolBrush \<lparr>cx = 0, cy = 0\<rparr>))))
       = Some [10, 10, 0, 10, 20, 10]
   \<and> (\<exists>lp p. getLastPointOfLine [10, 10, 0, 10] = Some lp \<and> scaledCursor (primaryAt 20 10) = Some p
        \<and> activeWidth (toolState (fold (mousemove specUtil) [primaryAt 0 10]
               (mousedown specUtil (primaryAt 10 10) (exampleState ToolBrush \<lparr>cx = 0, cy = 0\<rparr>))))
             * BRUSH_SPACING_TARGET_SCALE specUtil \<le> hypot (cx lp - cx p) (cy lp - cy p))"
proof -
  let ?s = "mousedown specUtil (primaryAt 10 10) (exampleState ToolBrush \<lparr>cx = 0, cy = 0\<rparr>)"
  have p1: "bufferPoints (fold (mousemove specUtil) [primaryAt 0 10] ?s) = Some [10, 10, 0, 10]"
    using moved_brush_example by simp
  have p2: "bufferPoints (mousemove specUtil (primaryAt 20 10) (fold (mousemove specUtil) [primaryAt 0 10] ?s))
      = Some [10, 10, 0, 10, 20, 10]"
    using moved_twice_brush_example by simp
  have ne: "[10, 10, 0, 10, 20, 10] \<noteq> [10, 10, 0, 10 :: real]"
    by simp
  show ?thesis
    using mousemove_appends_filtered_points
      [of specUtil "[primaryAt 0 10]" ?s "[10, 10, 0, 10]" "primaryAt 20 10" "[10, 10, 0, 10, 20, 10]"]
      p1 p2 ne
    by blast
qed

text \<open>
  The points a press stores are outside that statement. A press with the shift key down on
  an entity whose last object is a brush line stores that line's end and the press point;
  pressed on the line's end, here (10, 10), the buffer starts with that point twice, and
  the moves that follow append to it.
\<close>

lemma shift_press_seeds_repeated_point:
  "bufferPoints (mousedown specUtil ((primaryAt 10 10)\<lparr>shiftKey := True\<rparr>)
      ((exampleState ToolBrush \<lparr>cx = 0, cy = 0\<rparr>)
         \<lparr>selectedEntity := Some \<lparr>entState = \<lparr>entId = ''layer1'', entType = RasterLayer,
              entPosition = \<lparr>cx = 0, cy = 0\<rparr>,
              entObjects = [BrushLine (''brush_line'', 0) [0, 0, 10, 10] 50 exampleFill None]\<rparr>,
            adapter = \<lparr>adapterId = ''layer1'', buffer = None\<rparr>\<rparr>, nextId := 1\<rparr>))
     = Some [10, 10, 10, 10]
   \<and> bufferPoints (mousemove specUtil (primaryAt 30 10)
      (mousedown specUtil ((primaryAt 10 10)\<lparr>shiftKey := True\<rparr>)
      ((exampleState ToolBrush \<lparr>cx = 0, cy = 0\<rparr>)
         \<lparr>selectedEntity := Some \<lparr>entState = \<lparr>entId = ''layer1'', entType = RasterLayer,
              entPosition = \<lparr>cx = 0, cy = 0\<rparr>,
              entObjects = [BrushLine (''brush_line'', 0) [0, 0, 10, 10] 50 exampleFill None]\<rparr>,
            adapter = \<lparr>adapterId = ''layer1'', buffer = None\<rparr>\<rparr>, nextId := 1\<rparr>)))
     = Some [10, 10, 10, 10, 30, 10]"
  by (simp add: example_defs handler_defs mouseup_defs getNextPoint_def hypot_less_iff bufferPoints_def)

text \<open>
  Whatever the helpers compute, the point appended when the pointer leaves the stage is
  appended unconditionally.
\<close>

lemma mouseleave_appends_unfiltered:
  assumes "selected (toolState s) = ToolBrush" and "selectedEntity s = Some ent"
    and "isDrawableEntity (entState ent)" and "buffer (adapter ent) = Some (BrushLine i ps w c cl)"
    and "\<not> spaceKey s" and "scaledCursor e = Some p" and "buttons e = 1"
    and "adapterId (adapter ent) = entId (entState ent)"
  shows "persistedObjects (mouseleave u e s)
       = persistedObjects s @
         [BrushLine (''brush_line'', nextId s)
            (ps @ [cx (alignCoordForTool u (offsetCoord u p (entPosition (entState ent))) (brushWidth (toolState s))),
                   cy (alignCoordForTool u (offsetCoord u p (entPosition (entState ent))) (brushWidth (toolState s)))])
            w c cl]"
  using assms by (simp add: handler_defs mouseup_defs)

text \<open>
  C2 as stated fails. Press at (10, 10), move to (0, 10), leave the stage at (0, 10): the
  committed stroke holds the point (0, 10) twice in a row, at distance 0 where the claim
  promises at least 50 \<times> 0.1.
\<close>

theorem mouseleave_appends_repeated_point:
  "persistedObjects (mouseleave specUtil (primaryAt 0 10)
      (mousemove specUtil (primaryAt 0 10)
        (mousedown specUtil (primaryAt 10 10) (exampleState ToolBrush \<lparr>cx = 0, cy = 0\<rparr>))))
     = [BrushLine (''brush_line'', 1) [10, 10, 0, 10, 0, 10] 50 exampleFill
         (Some \<lparr>rectX = 0, rectY = 0, rectWidth = 512, rectHeight = 512\<rparr>)]
   \<and> \<not> pointsSpaced (50 * BRUSH_SPACING_TARGET_SCALE specUtil) [10, 10, 0, 10, 0, 10]
   \<and> \<not> noRepeatedPoint [10, 10, 0, 10, 0, 10]"
  by (simp add: example_defs handler_defs mouseup_defs getNextPoint_def hypot_less_iff hypot_le_iff)

text \<open>
  With pointer moves alone and the helpers as the spec describes them the stored points can
  also be closer than the spacing: the test compares the last stored point, which is in
  the entity's coordinates, with the cursor position before it is offset (an entity at
  (100, 0): the points (0, 0) and (1, 0) are stored, one pixel apart), and alignment moves
  an accepted point (cursor (4.4, 2.4) is 5.01 from the origin and is stored as (4, 2),
  4.47 from it).
\<close>

lemma mousemove_offset_entity_close_points:
  "bufferPoints (mousemove specUtil (primaryAt 101 0)
      (mousedown specUtil (primaryAt 100 0) (exampleState ToolBrush \<lparr>cx = 100, cy = 0\<rparr>)))
     = Some [0, 0, 1, 0]
   \<and> \<not> pointsSpaced (50 * BRUSH_SPACING_TARGET_SCALE specUtil) [0, 0, 1, 0]"
  by (simp add: example_defs handler_defs mouseup_defs getNextPoint_def hypot_less_iff hypot_le_iff
      bufferPoints_def)

lemma mousemove_aligned_close_points:
  "bufferPoints (mousemove specUtil (primaryAt (44 / 10) (24 / 10))
      (mousedown specUtil (primaryAt 0 0) (exampleState ToolBrush \<lparr>cx = 0, cy = 0\<rparr>)))
     = Some [0, 0, 4, 2]
   \<and> \<not> pointsSpaced (50 * BRUSH_SPACING_TARGET_SCALE specUtil) [0, 0, 4, 2]"
  by (simp add: example_defs handler_defs mouseup_defs getNextPoint_def hypot_less_iff hypot_le_iff
      bufferPoints_def round_def)

subsection \<open>The identifier supply stays ahead of the buffer\<close>

lemma nextId_commitBuffer: "nextId s \<le> nextId (commitBuffer s)"
  by (cases "selectedEntity s")
     (auto simp: commitBuffer_def finalizeDrawingBuffer_def getPrefixedId_def dispatch_def Let_def
       split: option.splits CanvasObject.splits)

lemma bufferIdIssued_None: "getBuffer s = None \<Longrightarrow> bufferIdIssued s"
  by (simp add: bufferIdIssued_def)

lemma bufferIdIssued_same:
  "getBuffer s' = getBuffer s \<Longrightarrow> nextId s \<le> nextId s' \<Longrightarrow> bufferIdIssued s \<Longrightarrow> bufferIdIssued s'"
  by (auto simp: bufferIdIssued_def split: option.splits)

lemma mouseup_idIssued:
  assumes "bufferIdIssued s"
  shows "bufferIdIssued (mouseup s)"
proof -
  have "getBuffer (mouseup s) = None \<or> (getBuffer (mouseup s) = getBuffer s \<and> nextId (mouseup s) = nextId s)"
    by (cases "selected (toolState s)")
       (auto simp: mouseup_def mouseupBrush_def mouseupEraser_def mouseupRect_def Let_def
         split: option.splits CanvasObject.splits)
  then show ?thesis
    using assms bufferIdIssued_None bufferIdIssued_same by (metis order_refl)
qed


lemma nextId_setBuffer [simp]: "nextId (setBuffer obj s) = nextId s"
  by (simp add: setBuffer_def)

lemma nextId_clearBuffer [simp]: "nextId (clearBuffer s) = nextId s"
  by (simp add: clearBuffer_def)

lemma mousemoveBrush_idIssued:
  assumes "bufferIdIssued s"
  shows "bufferIdIssued (mousemoveBrush u p ts ent s)"
proof (cases "getBuffer s")
  case None
  then show ?thesis
    by (cases "selectedEntity s")
       (auto simp: mousemoveBrush_def Let_def getObjectId_def bufferIdIssued_def split: prod.splits)
next
  case (Some b)
  then have sel: "selectedEntity s \<noteq> None"
    by (auto simp: getBuffer_def split: option.splits)
  show ?thesis
    using assms Some sel
    by (cases b)
       (auto simp: mousemoveBrush_def Let_def bufferIdIssued_def split: option.splits)
qed

lemma mousemoveEraser_idIssued:
  assumes "bufferIdIssued s"
  shows "bufferIdIssued (mousemoveEraser u p ts ent s)"
proof (cases "getBuffer s")
  case None
  then show ?thesis
    by (cases "selectedEntity s")
       (auto simp: mousemoveEraser_def Let_def getObjectId_def bufferIdIssued_def split: prod.splits)
next
  case (Some b)
  then have sel: "selectedEntity s \<noteq> None"
    by (auto simp: getBuffer_def split: option.splits)
  show ?thesis
    using assms Some sel
    by (cases b)
       (auto simp: mousemoveEraser_def Let_def bufferIdIssued_def split: option.splits)
qed

lemma mousemoveRect_idIssued:
  assumes "bufferIdIssued s"
  shows "bufferIdIssued (mousemoveRect u p ent s)"
proof (cases "getBuffer s")
  case None
  then show ?thesis by (simp add: mousemoveRect_def bufferIdIssued_def)
next
  case (Some b)
  then have sel: "selectedEntity s \<noteq> None"
    by (auto simp: getBuffer_def split: option.splits)
  show ?thesis
    using assms Some sel
    by (cases b) (auto simp: mousemoveRect_def Let_def bufferIdIssued_def)
qed

lemma mousemove_idIssued:
  assumes "bufferIdIssued s"
  shows "bufferIdIssued (mousemove u e s)"
proof (cases "\<exists>p ent. scaledCursor e = Some p \<and> selectedEntity s = Some ent
    \<and> (isDrawableEntity (entState ent) \<and> \<not> spaceKey s \<and> getIsPrimaryMouseDown e)
    \<and> selected (toolState s) \<in> {ToolBrush, ToolEraser, ToolRect}")
  case False
  have b: "getBuffer (mousemove u e s) = getBuffer s"
    using False by (rule mousemove_no_branch)
  have n: "nextId (mousemove u e s) = nextId s"
  proof (cases "scaledCursor e")
    case None
    then show ?thesis by (simp add: mousemove_unfold)
  next
    case (Some p)
    show ?thesis
    proof (cases "selectedEntity s")
      case None
      then show ?thesis using Some by (simp add: mousemove_unfold Let_def)
    next
      case ent: (Some ent)
      have g: "\<not> ((isDrawableEntity (entState ent) \<and> \<not> spaceKey s \<and> getIsPrimaryMouseDown e)
               \<and> selected (toolState s) \<in> {ToolBrush, ToolEraser, ToolRect})"
        using False Some ent by blast
      show ?thesis
      proof (cases "isDrawableEntity (entState ent) \<and> \<not> spaceKey s \<and> getIsPrimaryMouseDown e")
        case True
        then have "selected (toolState s) \<notin> {ToolBrush, ToolEraser, ToolRect}"
          using g by blast
        then show ?thesis
          using Some ent True
          by (cases "selected (toolState s)") (simp_all add: mousemove_unfold Let_def)
      next
        case False
        then show ?thesis
          using Some ent
          by (cases "selected (toolState s)") (auto simp: mousemove_unfold Let_def)
      qed
    qed
  qed
  show ?thesis using bufferIdIssued_same [OF b _ assms] n by simp
next
  case True
  then obtain p ent where h: "scaledCursor e = Some p" "selectedEntity s = Some ent"
    "isDrawableEntity (entState ent) \<and> \<not> spaceKey s \<and> getIsPrimaryMouseDown e"
    and t: "selected (toolState s) \<in> {ToolBrush, ToolEraser, ToolRect}"
    by blast
  have i: "bufferIdIssued (s\<lparr>lastCursorPos := Some p\<rparr>)"
    by (rule bufferIdIssued_same [OF _ _ assms]) simp_all
  from t consider "selected (toolState s) = ToolBrush" | "selected (toolState s) = ToolEraser"
    | "selected (toolState s) = ToolRect" by auto
  then show ?thesis
  proof cases
    case 1
    show ?thesis
      unfolding mousemove_branch(1) [OF h 1] using i by (rule mousemoveBrush_idIssued)
  next
    case 2
    show ?thesis
      unfolding mousemove_branch(2) [OF h 2] using i by (rule mousemoveEraser_idIssued)
  next
    case 3
    show ?thesis
      unfolding mousemove_branch(3) [OF h 3] using i by (rule mousemoveRect_idIssued)
  qed
qed


lemma mouseleave_buffer:
  "getBuffer (mouseleave u e s) = None
   \<or> (getBuffer (mouseleave u e s) = getBuffer s \<and> nextId (mouseleave u e s) = nextId s)"
proof (cases "scaledCursor e")
  case None
  then show ?thesis by (simp add: mouseleave_def updateLastCursorPos_def getBuffer_def)
next
  case (Some p)
  show ?thesis
  proof (cases "selectedEntity s")
    case None
    then show ?thesis using Some by (simp add: mouseleave_def updateLastCursorPos_def getBuffer_def)
  next
    case ent: (Some ent)
    show ?thesis
    proof (cases "isDrawableEntity (entState ent) \<and> \<not> spaceKey s \<and> getIsPrimaryMouseDown e")
      case False
      then show ?thesis
        using Some ent by (auto simp: mouseleave_def updateLastCursorPos_def getBuffer_def)
    next
      case True
      show ?thesis
      proof (cases "buffer (adapter ent)")
        case None
        then show ?thesis
          using Some ent True by (simp add: mouseleave_def updateLastCursorPos_def getBuffer_def)
      next
        case b: (Some b)
        have g: "getBuffer (s\<lparr>lastCursorPos := None, lastMouseDownPos := None\<rparr>) = Some b"
          "getBuffer (s\<lparr>lastCursorPos := Some p, lastCursorPos := None, lastMouseDownPos := None\<rparr>) = Some b"
          using ent b by (simp_all add: getBuffer_def)
        show ?thesis
          using Some ent True g
          by (cases b; cases "selected (toolState s) = ToolBrush"; cases "selected (toolState s) = ToolEraser";
              cases "selected (toolState s) = ToolRect")
             (simp_all add: mouseleave_def updateLastCursorPos_def Let_def)
      qed
    qed
  qed
qed

lemma mouseleave_idIssued:
  assumes "bufferIdIssued s"
  shows "bufferIdIssued (mouseleave u e s)"
  using mouseleave_buffer [of u e s] assms bufferIdIssued_None bufferIdIssued_same
  by (metis order_refl)

lemma keys_idIssued:
  assumes "bufferIdIssued s"
  shows "bufferIdIssued (onKeyDown k s)" and "bufferIdIssued (onKeyUp k s)"
    and "bufferIdIssued (setTool t s)"
  using assms
  by (auto simp: onKeyDown_def onKeyUp_def setTool_def setToolBuffer_def Let_def bufferIdIssued_def
      getBuffer_def clearBuffer_def split: option.splits)


lemma selectedEntity_commitBuffer:
  "selectedEntity (commitBuffer s) = None \<longleftrightarrow> selectedEntity s = None"
  by (cases "selectedEntity s")
     (auto simp: commitBuffer_def finalizeDrawingBuffer_def getPrefixedId_def dispatch_def Let_def
       split: option.splits CanvasObject.splits)

lemma mousedown_branch:
  assumes "scaledCursor e = Some p" and "selectedEntity s = Some ent"
    and "isDrawableEntity (entState ent) \<and> \<not> spaceKey s \<and> getIsPrimaryMouseDown e"
  shows "selected (toolState s) = ToolBrush \<Longrightarrow>
           mousedown u e s = mousedownBrush u e (toolState s) ent (offsetCoord u p (entPosition (entState ent)))
             (s\<lparr>isMouseDown := True, lastCursorPos := Some p, lastMouseDownPos := Some p\<rparr>)"
    and "selected (toolState s) = ToolEraser \<Longrightarrow>
           mousedown u e s = mousedownEraser u e (toolState s) ent (offsetCoord u p (entPosition (entState ent)))
             (s\<lparr>isMouseDown := True, lastCursorPos := Some p, lastMouseDownPos := Some p\<rparr>)"
    and "selected (toolState s) = ToolRect \<Longrightarrow>
           mousedown u e s = mousedownRect (offsetCoord u p (entPosition (entState ent)))
             (s\<lparr>isMouseDown := True, lastCursorPos := Some p, lastMouseDownPos := Some p\<rparr>)"
  using assms by (simp_all add: mousedown_def updateLastCursorPos_def Let_def)

lemma mousedown_no_branch:
  assumes "\<not> (\<exists>p ent. scaledCursor e = Some p \<and> selectedEntity s = Some ent
    \<and> (isDrawableEntity (entState ent) \<and> \<not> spaceKey s \<and> getIsPrimaryMouseDown e)
    \<and> selected (toolState s) \<in> {ToolBrush, ToolEraser, ToolRect})"
  shows "getBuffer (mousedown u e s) = getBuffer s \<and> nextId (mousedown u e s) = nextId s"
proof (cases "scaledCursor e")
  case None
  then show ?thesis
    by (simp add: mousedown_def updateLastCursorPos_def Let_def setFill_def getBuffer_def
        split: option.splits)
next
  case (Some p)
  show ?thesis
  proof (cases "selectedEntity s")
    case None
    then show ?thesis using Some
      by (simp add: mousedown_def updateLastCursorPos_def Let_def setFill_def getBuffer_def
          split: option.splits)
  next
    case ent: (Some ent)
    have n: "\<not> ((isDrawableEntity (entState ent) \<and> \<not> spaceKey s \<and> getIsPrimaryMouseDown e)
               \<and> selected (toolState s) \<in> {ToolBrush, ToolEraser, ToolRect})"
      using assms Some ent by blast
    show ?thesis
    proof (cases "isDrawableEntity (entState ent) \<and> \<not> spaceKey s \<and> getIsPrimaryMouseDown e")
      case True
      then have "selected (toolState s) \<notin> {ToolBrush, ToolEraser, ToolRect}"
        using n by blast
      then show ?thesis
        using Some ent True
        by (cases "selected (toolState s)")
           (simp_all add: mousedown_def updateLastCursorPos_def Let_def setFill_def getBuffer_def
             split: option.splits)
    next
      case False
      then show ?thesis
        using Some ent
        by (cases "selected (toolState s)")
           (auto simp: mousedown_def updateLastCursorPos_def Let_def setFill_def getBuffer_def
             split: option.splits)
    qed
  qed
qed


lemma nextId_lastAddedPoint [simp]: "nextId (s\<lparr>lastAddedPoint := pt\<rparr>) = nextId s"
  by simp

lemma mousedownBrush_buffer:
  assumes "selectedEntity s \<noteq> None"
  shows "\<exists>b. getBuffer (mousedownBrush u e ts ent np s) = Some b
      \<and> Suc (snd (objId b)) = nextId (mousedownBrush u e ts ent np s)
      \<and> (shiftKey e \<or> (\<exists>a c. linePoints b = Some [a, c]))"
proof -
  define s1 where "s1 = (if getBuffer s \<noteq> None then commitBuffer s else s)"
  have sel: "selectedEntity s1 \<noteq> None"
    unfolding s1_def using assms selectedEntity_commitBuffer [of s] by (cases "getBuffer s") auto
  show ?thesis
    using sel unfolding mousedownBrush_def Let_def getObjectId_def s1_def [symmetric]
    by (auto split: option.splits)
qed

lemma mousedownEraser_buffer:
  assumes "selectedEntity s \<noteq> None"
  shows "\<exists>b. getBuffer (mousedownEraser u e ts ent np s) = Some b
      \<and> Suc (snd (objId b)) = nextId (mousedownEraser u e ts ent np s)
      \<and> (shiftKey e \<or> (\<exists>a c. linePoints b = Some [a, c]))"
proof -
  define s1 where "s1 = (if getBuffer s \<noteq> None then commitBuffer s else s)"
  have sel: "selectedEntity s1 \<noteq> None"
    unfolding s1_def using assms selectedEntity_commitBuffer [of s] by (cases "getBuffer s") auto
  show ?thesis
    using sel unfolding mousedownEraser_def Let_def getObjectId_def s1_def [symmetric]
    by (auto split: option.splits)
qed

lemma mousedownRect_buffer:
  assumes "selectedEntity s \<noteq> None"
  shows "\<exists>b. getBuffer (mousedownRect np s) = Some b
      \<and> Suc (snd (objId b)) = nextId (mousedownRect np s)
      \<and> linePoints b = None"
proof -
  define s1 where "s1 = (if getBuffer s \<noteq> None then commitBuffer s else s)"
  have sel: "selectedEntity s1 \<noteq> None"
    unfolding s1_def using assms selectedEntity_commitBuffer [of s] by (cases "getBuffer s") auto
  show ?thesis
    using sel unfolding mousedownRect_def Let_def getObjectId_def s1_def [symmetric]
    by auto
qed

lemma mousedown_buffer:
  "(getBuffer (mousedown u e s) = getBuffer s \<and> nextId (mousedown u e s) = nextId s)
   \<or> (\<exists>b. getBuffer (mousedown u e s) = Some b
        \<and> Suc (snd (objId b)) = nextId (mousedown u e s)
        \<and> (shiftKey e \<or> linePoints b = None \<or> (\<exists>a c. linePoints b = Some [a, c])))"
proof (cases "\<exists>p ent. scaledCursor e = Some p \<and> selectedEntity s = Some ent
    \<and> (isDrawableEntity (entState ent) \<and> \<not> spaceKey s \<and> getIsPrimaryMouseDown e)
    \<and> selected (toolState s) \<in> {ToolBrush, ToolEraser, ToolRect}")
  case False
  then show ?thesis using mousedown_no_branch [of e s u] by blast
next
  case True
  then obtain p ent where h: "scaledCursor e = Some p" "selectedEntity s = Some ent"
    "isDrawableEntity (entState ent) \<and> \<not> spaceKey s \<and> getIsPrimaryMouseDown e"
    and t: "selected (toolState s) \<in> {ToolBrush, ToolEraser, ToolRect}"
    by blast
  let ?s = "s\<lparr>isMouseDown := True, lastCursorPos := Some p, lastMouseDownPos := Some p\<rparr>"
  have sel: "selectedEntity ?s \<noteq> None"
    using h(2) by simp
  from t consider "selected (toolState s) = ToolBrush" | "selected (toolState s) = ToolEraser"
    | "selected (toolState s) = ToolRect" by auto
  then show ?thesis
  proof cases
    case 1
    show ?thesis
      unfolding mousedown_branch(1) [OF h 1]
      using mousedownBrush_buffer [OF sel] by blast
  next
    case 2
    show ?thesis
      unfolding mousedown_branch(2) [OF h 2]
      using mousedownEraser_buffer [OF sel] by blast
  next
    case 3
    show ?thesis
      unfolding mousedown_branch(3) [OF h 3]
      using mousedownRect_buffer [OF sel] by blast
  qed
qed

lemma mousedown_idIssued:
  assumes "bufferIdIssued s"
  shows "bufferIdIssued (mousedown u e s)"
  using mousedown_buffer [of u e s] assms
  by (auto simp: bufferIdIssued_def split: option.splits)

lemma mousedown_wellFormed:
  assumes "strokeWellFormed s" and "\<not> shiftKey e"
  shows "strokeWellFormed (mousedown u e s)"
  using mousedown_buffer [of u e s] assms
  by (auto simp: strokeWellFormed_def bufferPoints_def split: option.splits)

lemma handleEvent_idIssued:
  assumes "bufferIdIssued s"
  shows "bufferIdIssued (handleEvent u ev s)"
  using assms
  by (cases ev)
     (simp_all add: mousedown_idIssued mouseup_idIssued mousemove_idIssued mouseleave_idIssued
       keys_idIssued)

text \<open>
  In every state a session reaches from one without a buffer, the buffer's identifier is
  one the supply has issued: the premise on the buffer's identifier in the statement on the
  release of the button holds throughout.
\<close>

lemma fold_handleEvent_idIssued:
  "bufferIdIssued s \<Longrightarrow> bufferIdIssued (fold (handleEvent u) evs s)"
  by (induction evs arbitrary: s) (simp_all add: handleEvent_idIssued)

lemma exampleState_idIssued: "bufferIdIssued (exampleState t pos)"
  by (simp add: bufferIdIssued_def getBuffer_def exampleState_def)


end
